theory Spec2Isabelle
  imports Complex_Main
begin

section \<open>Python values\<close>

text \<open>
  A Python float: a finite value, read as a real number, or one of the three special
  values that \<^verbatim>\<open>json.loads\<close> also produces (from \<^verbatim>\<open>Infinity\<close>,
  \<^verbatim>\<open>-Infinity\<close>, \<^verbatim>\<open>NaN\<close>). The conversion of an int to a float is taken
  without its rounding; the one subtraction of floats in the program, in the lock check,
  rounds its result.
\<close>

datatype pyfloat = Fin real | PosInf | NegInf | NaN

text \<open>
  What \<^verbatim>\<open>json.loads\<close> returns: None, a bool, an int (unbounded), a float, a str, a
  list or a dict. A dict is an association list whose keys are looked up with
  \<^const>\<open>map_of\<close>.
\<close>

datatype json =
    JNull
  | JBool bool
  | JInt int
  | JFloat pyfloat
  | JStr string
  | JArr "json list"
  | JObj "(string \<times> json) list"

type_synonym dict = "(string \<times> json) list"

datatype error = TypeError | ValueError | KeyError | OverflowError

text \<open>Comparison, subtraction and absolute value of floats, with IEEE special values.\<close>

fun pf_less :: "pyfloat \<Rightarrow> pyfloat \<Rightarrow> bool" where
  "pf_less NaN _ = False"
| "pf_less _ NaN = False"
| "pf_less (Fin a) (Fin b) = (a < b)"
| "pf_less (Fin a) PosInf = True"
| "pf_less (Fin a) NegInf = False"
| "pf_less PosInf _ = False"
| "pf_less NegInf NegInf = False"
| "pf_less NegInf _ = True"

fun pf_sub :: "pyfloat \<Rightarrow> pyfloat \<Rightarrow> pyfloat" where
  "pf_sub NaN _ = NaN"
| "pf_sub _ NaN = NaN"
| "pf_sub (Fin a) (Fin b) = Fin (a - b)"
| "pf_sub (Fin a) PosInf = NegInf"
| "pf_sub (Fin a) NegInf = PosInf"
| "pf_sub PosInf PosInf = NaN"
| "pf_sub PosInf _ = PosInf"
| "pf_sub NegInf NegInf = NaN"
| "pf_sub NegInf _ = NegInf"

fun pf_abs :: "pyfloat \<Rightarrow> pyfloat" where
  "pf_abs (Fin a) = Fin \<bar>a\<bar>"
| "pf_abs PosInf = PosInf"
| "pf_abs NegInf = PosInf"
| "pf_abs NaN = NaN"

text \<open>
  The builtins \<^verbatim>\<open>min(a, b)\<close> and \<^verbatim>\<open>max(a, b)\<close> on two floats: the first argument
  is kept unless the second is strictly smaller (larger).
\<close>

definition py_min :: "pyfloat \<Rightarrow> pyfloat \<Rightarrow> pyfloat" where
  "py_min a b = (if pf_less b a then b else a)"

definition py_max :: "pyfloat \<Rightarrow> pyfloat \<Rightarrow> pyfloat" where
  "py_max a b = (if pf_less a b then b else a)"

text \<open>\<^verbatim>\<open>isinstance(x, (int, float))\<close>: bool is a subclass of int.\<close>

fun is_number :: "json \<Rightarrow> bool" where
  "is_number (JBool _) = True"
| "is_number (JInt _) = True"
| "is_number (JFloat _) = True"
| "is_number _ = False"

text \<open>\<^verbatim>\<open>isinstance(x, dict)\<close>.\<close>

fun is_dict :: "json \<Rightarrow> bool" where
  "is_dict (JObj _) = True"
| "is_dict _ = False"

section \<open>The environment of a run\<close>

text \<open>
  A request to \<^verbatim>\<open>client.responses.create\<close>, by the parts of it that vary: the model
  name and the text placed into the fixed instructions (the user message for the
  mental-model call, the rendered transcript for the assumptions call), or the composed
  prompt of the response call (the rendered mental-model fields and the transcript).
\<close>

datatype request =
    MentalModelRequest string string
  | AssumptionsRequest string string
  | ResponseRequest string "string list" string

text \<open>The call raises, or returns a response whose \<^verbatim>\<open>output_text\<close> is the string.\<close>

datatype reply = Raises | OutputText string

text \<open>
  Everything a run takes from outside the repository: the service; \<^verbatim>\<open>json.loads\<close>
  (None where it raises); \<^verbatim>\<open>float\<close> on a str (None where it raises ValueError);
  \<^verbatim>\<open>str\<close> on a value that is not a str; \<^verbatim>\<open>format(x, '.2f')\<close>; the rounding
  of a real number to the nearest double, which a subtraction of two floats applies to
  the exact difference; and the two readings of the clock in a turn.
\<close>

record world =
  llm :: "request \<Rightarrow> reply"
  loads :: "string \<Rightarrow> json option"
  float_str :: "string \<Rightarrow> pyfloat option"
  str_other :: "json \<Rightarrow> string"
  fmt2f :: "pyfloat \<Rightarrow> string"
  round_double :: "real \<Rightarrow> pyfloat"
  now_history :: string
  now_log :: string

text \<open>What a run shows or sends: calls to the service, \<^verbatim>\<open>st.warning\<close>, \<^verbatim>\<open>st.error\<close>.\<close>

datatype event = Called request | StWarning | StError

text \<open>
  \<^verbatim>\<open>float(x)\<close>. An int converts unless it rounds to a magnitude beyond the largest
  double, \<open>2^1024 - 2^971\<close>; the first int that does is \<open>2^1024 - 2^970\<close>.
\<close>

definition float_int_limit :: int where
  "float_int_limit = 2 ^ 1024 - 2 ^ 970"

fun py_float :: "world \<Rightarrow> json \<Rightarrow> error + pyfloat" where
  "py_float W (JFloat f) = Inr f"
| "py_float W (JInt i) =
     (if \<bar>i\<bar> < float_int_limit then Inr (Fin (real_of_int i)) else Inl OverflowError)"
| "py_float W (JBool b) = Inr (Fin (if b then 1 else 0))"
| "py_float W (JStr s) =
     (case float_str W s of None \<Rightarrow> Inl ValueError | Some f \<Rightarrow> Inr f)"
| "py_float W _ = Inl TypeError"

text \<open>\<^verbatim>\<open>str(x)\<close>.\<close>

fun py_str :: "world \<Rightarrow> json \<Rightarrow> string" where
  "py_str W (JStr s) = s"
| "py_str W j = str_other W j"

text \<open>\<^verbatim>\<open>k in s\<close> for two strs: \<open>k\<close> occurs in \<open>s\<close> as a contiguous run.\<close>

fun str_contains :: "string \<Rightarrow> string \<Rightarrow> bool" where
  "str_contains k [] = (k = [])"
| "str_contains k (c # s) = (take (length k) (c # s) = k \<or> str_contains k s)"

text \<open>\<^verbatim>\<open>k in x\<close> and \<^verbatim>\<open>x[k]\<close> for a str \<open>k\<close> and a parsed value \<open>x\<close>.\<close>

fun py_in :: "string \<Rightarrow> json \<Rightarrow> error + bool" where
  "py_in k (JObj kvs) = Inr (map_of kvs k \<noteq> None)"
| "py_in k (JArr xs) = Inr (JStr k \<in> set xs)"
| "py_in k (JStr s) = Inr (str_contains k s)"
| "py_in k _ = Inl TypeError"

fun py_getitem :: "json \<Rightarrow> string \<Rightarrow> error + json" where
  "py_getitem (JObj kvs) k = (case map_of kvs k of None \<Rightarrow> Inl KeyError | Some v \<Rightarrow> Inr v)"
| "py_getitem _ k = Inl TypeError"

section \<open>The default mental model\<close>

definition DEFAULT_MM :: dict where
  "DEFAULT_MM =
    [(''user_certainty'', JFloat (Fin 0.5)),
     (''model_seen_as_expert'', JFloat (Fin 0.8)),
     (''expects_correction'', JBool True),
     (''validation_seeking'', JFloat (Fin 0.5)),
     (''objectivity_seeking'', JFloat (Fin 0.5)),
     (''empathy_expectation'', JFloat (Fin 0.5)),
     (''directness'', JFloat (Fin 0.5)),
     (''informativeness'', JFloat (Fin 0.7)),
     (''assistant_role'', JStr ''Neutral assistant'')]"

section \<open>The mental-model inferencer\<close>

text \<open>
  The loop \<^verbatim>\<open>for k in cleaned: if k in mm: cleaned[k] = mm[k]\<close> over the entries of
  the copy of the defaults, in order; an exception ends it.
\<close>

fun overwrite_defaults :: "json \<Rightarrow> dict \<Rightarrow> error + dict" where
  "overwrite_defaults mm [] = Inr []"
| "overwrite_defaults mm ((k, d) # rest) =
     (case py_in k mm of
        Inl e \<Rightarrow> Inl e
      | Inr present \<Rightarrow>
          (case (if present then py_getitem mm k else Inr d) of
             Inl e \<Rightarrow> Inl e
           | Inr v \<Rightarrow>
               (case overwrite_defaults mm rest of
                  Inl e \<Rightarrow> Inl e
                | Inr r \<Rightarrow> Inr ((k, v) # r))))"

text \<open>
  \<^verbatim>\<open>infer_mental_model_with_llm(text, api_key, model_name)\<close>: the returned dict and
  what the call did. Every exception of the \<^verbatim>\<open>try\<close> block ends in the warning and
  the defaults.
\<close>

definition infer_mental_model_with_llm :: "world \<Rightarrow> string \<Rightarrow> string \<Rightarrow> dict \<times> event list" where
  "infer_mental_model_with_llm W text model_name =
     (let req = MentalModelRequest model_name text in
      case llm W req of
        Raises \<Rightarrow> (DEFAULT_MM, [Called req, StWarning])
      | OutputText t \<Rightarrow>
          (case loads W t of
             None \<Rightarrow> (DEFAULT_MM, [Called req, StWarning])
           | Some mm \<Rightarrow>
               (case overwrite_defaults mm DEFAULT_MM of
                  Inl e \<Rightarrow> (DEFAULT_MM, [Called req, StWarning])
                | Inr cleaned \<Rightarrow> (cleaned, [Called req]))))"

section \<open>The assumption inferencer\<close>

record assumption_entry =
  assumption :: string
  probability :: pyfloat
  evidence :: string

text \<open>
  The shape check of the response: a dict with a list under \<^verbatim>\<open>"assumptions"\<close>; None
  is where the source raises ValueError.
\<close>

fun assumptions_of :: "json \<Rightarrow> json list option" where
  "assumptions_of (JObj kvs) =
     (case map_of kvs ''assumptions'' of Some (JArr items) \<Rightarrow> Some items | _ \<Rightarrow> None)"
| "assumptions_of _ = None"

text \<open>\<^verbatim>\<open>max(0.0, min(1.0, prob))\<close>.\<close>

definition clamp01 :: "pyfloat \<Rightarrow> pyfloat" where
  "clamp01 prob = py_max (Fin 0) (py_min (Fin 1) prob)"

text \<open>
  The body of the loop over the items: \<open>Inr None\<close> is \<^verbatim>\<open>continue\<close>, \<open>Inr (Some c)\<close>
  appends \<open>c\<close>, \<open>Inl e\<close> is an exception of \<^verbatim>\<open>float\<close>.
\<close>

fun clean_item :: "world \<Rightarrow> json \<Rightarrow> error + assumption_entry option" where
  "clean_item W (JObj kvs) =
     (case (map_of kvs ''assumption'', map_of kvs ''probability'') of
        (Some a, Some p) \<Rightarrow>
          (case py_float W p of
             Inl e \<Rightarrow> Inl e
           | Inr prob \<Rightarrow>
               Inr (Some \<lparr>assumption = py_str W a,
                          probability = clamp01 prob,
                          evidence = py_str W (case map_of kvs ''evidence'' of
                                                 None \<Rightarrow> JStr [] | Some v \<Rightarrow> v)\<rparr>))
      | _ \<Rightarrow> Inr None)"
| "clean_item W _ = Inr None"

fun clean_items :: "world \<Rightarrow> json list \<Rightarrow> error + assumption_entry list" where
  "clean_items W [] = Inr []"
| "clean_items W (item # rest) =
     (case clean_item W item of
        Inl e \<Rightarrow> Inl e
      | Inr r \<Rightarrow>
          (case clean_items W rest of
             Inl e \<Rightarrow> Inl e
           | Inr cs \<Rightarrow> Inr (case r of None \<Rightarrow> cs | Some c \<Rightarrow> c # cs)))"

text \<open>
  \<^verbatim>\<open>infer_uncertain_assumptions_with_llm(conversation_text, api_key, model_name)\<close>:
  the list under \<^verbatim>\<open>"assumptions"\<close> of the returned dict, and what the call did.
\<close>

definition infer_uncertain_assumptions_with_llm ::
  "world \<Rightarrow> string \<Rightarrow> string \<Rightarrow> assumption_entry list \<times> event list" where
  "infer_uncertain_assumptions_with_llm W conversation_text model_name =
     (let req = AssumptionsRequest model_name conversation_text in
      case llm W req of
        Raises \<Rightarrow> ([], [Called req, StWarning])
      | OutputText t \<Rightarrow>
          (case loads W t of
             None \<Rightarrow> ([], [Called req, StWarning])
           | Some data \<Rightarrow>
               (case assumptions_of data of
                  None \<Rightarrow> ([], [Called req, StWarning])
                | Some items \<Rightarrow>
                    (case clean_items W (take 10 items) of
                       Inl e \<Rightarrow> ([], [Called req, StWarning])
                     | Inr cleaned \<Rightarrow> (cleaned, [Called req])))))"

section \<open>Session state and the lock check\<close>

datatype role = User | Assistant

record message =
  role :: role
  content :: string

datatype mm_source = inferred_first_turn | user_locked | inferred_unlocked

record history_entry =
  h_turn_index :: nat
  h_timestamp :: string
  h_assumptions :: "assumption_entry list"

record turn_log =
  log_turn_index :: nat
  log_timestamp :: string
  log_mm_locked :: bool
  log_mental_model :: dict
  log_mental_model_source :: mm_source
  log_assumptions :: "assumption_entry list"
  log_user_message :: string
  log_assistant_message :: string
  log_combined_prompt :: "string list \<times> string"
  log_conversation_so_far :: "message list"

record session =
  messages :: "message list"
  mm_values :: dict
  turn_index :: nat
  turn_logs :: "turn_log list"
  mm_locked :: bool
  assumptions_latest :: "assumption_entry list option"
  assumptions_history :: "history_entry list"

definition initial_session :: session where
  "initial_session =
     \<lparr>messages = [], mm_values = DEFAULT_MM, turn_index = 0, turn_logs = [],
      mm_locked = False, assumptions_latest = None, assumptions_history = []\<rparr>"

text \<open>
  What the nine sidebar widgets return in a run of the script: seven sliders, a checkbox
  and a select box.
\<close>

record controls =
  user_certainty :: pyfloat
  model_seen_as_expert :: pyfloat
  expects_correction :: bool
  validation_seeking :: pyfloat
  objectivity_seeking :: pyfloat
  empathy_expectation :: pyfloat
  directness :: pyfloat
  informativeness :: pyfloat
  assistant_role :: string

text \<open>\<^verbatim>\<open>bool(x)\<close>: the truth value of a parsed value.\<close>

fun py_bool :: "json \<Rightarrow> bool" where
  "py_bool JNull = False"
| "py_bool (JBool b) = b"
| "py_bool (JInt i) = (i \<noteq> 0)"
| "py_bool (JFloat (Fin r)) = (r \<noteq> 0)"
| "py_bool (JFloat f) = True"
| "py_bool (JStr s) = (s \<noteq> [])"
| "py_bool (JArr xs) = (xs \<noteq> [])"
| "py_bool (JObj kvs) = (kvs \<noteq> [])"

definition roles :: "string list" where
  "roles = [''Neutral assistant'', ''Expert'', ''Friend/peer'', ''Therapist-like listener'']"

text \<open>
  The value a slider is built with, \<^verbatim>\<open>float(mm[k])\<close>, and the values of all nine
  widgets as the sidebar builds them from the stored mental model, in the order of the
  script: a slider with \<^verbatim>\<open>float(mm[k])\<close>, the checkbox with
  \<^verbatim>\<open>bool(mm["expects_correction"])\<close>, the select box at the index of
  \<^verbatim>\<open>mm["assistant_role"]\<close> among the four roles, where \<^verbatim>\<open>list.index\<close> raises
  ValueError on any other value. A widget that the user has not touched returns the
  value it was built with; what the rendering layer does with a slider value outside
  0.0 to 1.0 is not part of the model.
\<close>

definition slider_value :: "world \<Rightarrow> dict \<Rightarrow> string \<Rightarrow> error + pyfloat" where
  "slider_value W mm k =
     (case map_of mm k of None \<Rightarrow> Inl KeyError | Some v \<Rightarrow> py_float W v)"

text \<open>An exception ends a sequence of steps; a value is handed to the next step.\<close>

definition and_then :: "error + 'a \<Rightarrow> ('a \<Rightarrow> error + 'b) \<Rightarrow> error + 'b" where
  "and_then r f = (case r of Inl e \<Rightarrow> Inl e | Inr x \<Rightarrow> f x)"

definition checkbox_value :: "dict \<Rightarrow> error + bool" where
  "checkbox_value mm =
     (case map_of mm ''expects_correction'' of
        None \<Rightarrow> Inl KeyError
      | Some v \<Rightarrow> Inr (py_bool v))"

definition selectbox_value :: "dict \<Rightarrow> error + string" where
  "selectbox_value mm =
     (case map_of mm ''assistant_role'' of
        None \<Rightarrow> Inl KeyError
      | Some (JStr r) \<Rightarrow> if r \<in> set roles then Inr r else Inl ValueError
      | Some other \<Rightarrow> Inl ValueError)"

definition widget_values :: "world \<Rightarrow> dict \<Rightarrow> error + controls" where
  "widget_values W mm =
     and_then (slider_value W mm ''user_certainty'') (\<lambda>uc.
     and_then (slider_value W mm ''model_seen_as_expert'') (\<lambda>ms.
     and_then (checkbox_value mm) (\<lambda>ec.
     and_then (slider_value W mm ''validation_seeking'') (\<lambda>vs.
     and_then (slider_value W mm ''objectivity_seeking'') (\<lambda>os.
     and_then (slider_value W mm ''empathy_expectation'') (\<lambda>ee.
     and_then (slider_value W mm ''directness'') (\<lambda>di.
     and_then (slider_value W mm ''informativeness'') (\<lambda>fo.
     and_then (selectbox_value mm) (\<lambda>r.
       Inr \<lparr>user_certainty = uc, model_seen_as_expert = ms, expects_correction = ec,
            validation_seeking = vs, objectivity_seeking = os, empathy_expectation = ee,
            directness = di, informativeness = fo, assistant_role = r\<rparr>)))))))))"

definition current_from_controls :: "controls \<Rightarrow> dict" where
  "current_from_controls c =
    [(''user_certainty'', JFloat (user_certainty c)),
     (''model_seen_as_expert'', JFloat (model_seen_as_expert c)),
     (''expects_correction'', JBool (expects_correction c)),
     (''validation_seeking'', JFloat (validation_seeking c)),
     (''objectivity_seeking'', JFloat (objectivity_seeking c)),
     (''empathy_expectation'', JFloat (empathy_expectation c)),
     (''directness'', JFloat (directness c)),
     (''informativeness'', JFloat (informativeness c)),
     (''assistant_role'', JStr (assistant_role c))]"

text \<open>
  \<^verbatim>\<open>v != old\<close> for a control value \<open>v\<close>, which is a str, a float or a bool. A str
  equals the same str only. A float or a bool meets, in the branch that compares with
  \<^verbatim>\<open>!=\<close>, an \<open>old\<close> that is no number, and differs from it.
\<close>

fun control_ne :: "json \<Rightarrow> json \<Rightarrow> bool" where
  "control_ne (JStr a) old = (old \<noteq> JStr a)"
| "control_ne v old = True"

text \<open>
  The difference of two floats, which is the exact difference rounded to a double, and
  the double that the literal \<^verbatim>\<open>1e-6\<close> denotes, \<open>4722366482869645 / 2^72\<close>.
\<close>

fun float_sub :: "world \<Rightarrow> pyfloat \<Rightarrow> pyfloat \<Rightarrow> pyfloat" where
  "float_sub W (Fin a) (Fin b) = round_double W (a - b)"
| "float_sub W a b = pf_sub a b"

definition tolerance :: pyfloat where
  "tolerance = Fin (4722366482869645 / 2 ^ 72)"

text \<open>
  The body of the loop over the controls: whether this control sets \<^verbatim>\<open>changed\<close>,
  by \<^verbatim>\<open>abs(float(v) - float(old)) > 1e-6\<close> for two numbers and by \<^verbatim>\<open>v != old\<close>
  otherwise.
\<close>

definition control_changed :: "world \<Rightarrow> json \<Rightarrow> json \<Rightarrow> error + bool" where
  "control_changed W v old =
     (if is_number old \<and> is_number v then
        (case py_float W v of
           Inl e \<Rightarrow> Inl e
         | Inr fv \<Rightarrow>
             (case py_float W old of
                Inl e \<Rightarrow> Inl e
              | Inr fo \<Rightarrow> Inr (pf_less tolerance (pf_abs (float_sub W fv fo)))))
      else Inr (control_ne v old))"

text \<open>The loop, which stops at the first changed control.\<close>

fun any_changed :: "world \<Rightarrow> dict \<Rightarrow> dict \<Rightarrow> error + bool" where
  "any_changed W mm [] = Inr False"
| "any_changed W mm ((k, v) # rest) =
     (case map_of mm k of
        None \<Rightarrow> Inl KeyError
      | Some old \<Rightarrow>
          (case control_changed W v old of
             Inl e \<Rightarrow> Inl e
           | Inr True \<Rightarrow> Inr True
           | Inr False \<Rightarrow> any_changed W mm rest))"

text \<open>
  The module-level block under the comment \<^verbatim>\<open>Lock mental model upon first explicit
  user change\<close>, with the values the widgets returned. An exception leaves the session
  as it was.
\<close>

definition lock_check :: "world \<Rightarrow> controls \<Rightarrow> session \<Rightarrow> error + session" where
  "lock_check W c S =
     (if turn_index S \<noteq> 0 \<and> \<not> mm_locked S then
        (case any_changed W (mm_values S) (current_from_controls c) of
           Inl e \<Rightarrow> Inl e
         | Inr changed \<Rightarrow>
             Inr (if changed
                  then S\<lparr>mm_locked := True, mm_values := current_from_controls c\<rparr>
                  else S))
      else Inr S)"

section \<open>Helpers\<close>

text \<open>\<^verbatim>\<open>"\n".join(lines)\<close>.\<close>

fun join_lines :: "string list \<Rightarrow> string" where
  "join_lines [] = []"
| "join_lines [l] = l"
| "join_lines (l # ls) = l @ [CHR 0x0A] @ join_lines ls"

definition build_history_text :: "message list \<Rightarrow> string" where
  "build_history_text ms =
     join_lines (map (\<lambda>m. (if role m = User then ''User'' else ''Assistant'')
                            @ '': '' @ content m) ms)"

text \<open>
  \<^verbatim>\<open>format(x, '.2f')\<close>, as the f-string applies it: an int or a bool is converted to
  a float first, a str raises ValueError, every other value TypeError.
\<close>

fun format_2f :: "world \<Rightarrow> json \<Rightarrow> error + string" where
  "format_2f W (JFloat f) = Inr (fmt2f W f)"
| "format_2f W (JInt i) =
     (case py_float W (JInt i) of Inl e \<Rightarrow> Inl e | Inr f \<Rightarrow> Inr (fmt2f W f))"
| "format_2f W (JBool b) =
     (case py_float W (JBool b) of Inl e \<Rightarrow> Inl e | Inr f \<Rightarrow> Inr (fmt2f W f))"
| "format_2f W (JStr s) = Inl ValueError"
| "format_2f W _ = Inl TypeError"

text \<open>
  The replacement fields of the preamble, in the order of the template: the key, and
  whether it is formatted with \<^verbatim>\<open>:.2f\<close>.
\<close>

definition preamble_fields :: "(string \<times> bool) list" where
  "preamble_fields =
    [(''user_certainty'', True),
     (''model_seen_as_expert'', True),
     (''expects_correction'', False),
     (''validation_seeking'', True),
     (''objectivity_seeking'', True),
     (''empathy_expectation'', True),
     (''directness'', True),
     (''informativeness'', True),
     (''assistant_role'', False)]"

fun render_fields :: "world \<Rightarrow> dict \<Rightarrow> (string \<times> bool) list \<Rightarrow> error + string list" where
  "render_fields W mm_vals [] = Inr []"
| "render_fields W mm_vals ((k, two_places) # rest) =
     (case map_of mm_vals k of
        None \<Rightarrow> Inl KeyError
      | Some v \<Rightarrow>
          (case (if two_places then format_2f W v else Inr (py_str W v)) of
             Inl e \<Rightarrow> Inl e
           | Inr s \<Rightarrow>
               (case render_fields W mm_vals rest of
                  Inl e \<Rightarrow> Inl e
                | Inr ss \<Rightarrow> Inr (s # ss))))"

text \<open>
  \<^verbatim>\<open>build_mental_model_preamble(mm_vals)\<close>: the rendered fields (the text of the
  template around them is fixed), or the exception of the first field that raises.
\<close>

definition build_mental_model_preamble :: "world \<Rightarrow> dict \<Rightarrow> error + string list" where
  "build_mental_model_preamble W mm_vals = render_fields W mm_vals preamble_fields"

definition log_turn ::
  "world \<Rightarrow> nat \<Rightarrow> dict \<Rightarrow> mm_source \<Rightarrow> assumption_entry list \<Rightarrow> string \<Rightarrow> string
     \<Rightarrow> string list \<times> string \<Rightarrow> session \<Rightarrow> session" where
  "log_turn W turn_idx mm_vals mm_src assumptions_json user_message assistant_message
      combined_prompt S =
     S\<lparr>turn_logs := turn_logs S @
        [\<lparr>log_turn_index = turn_idx,
          log_timestamp = now_log W @ ''Z'',
          log_mm_locked = mm_locked S,
          log_mental_model = mm_vals,
          log_mental_model_source = mm_src,
          log_assumptions = assumptions_json,
          log_user_message = user_message,
          log_assistant_message = assistant_message,
          log_combined_prompt = combined_prompt,
          log_conversation_so_far = messages S\<rparr>]\<rparr>"

section \<open>Chat input and turn execution\<close>

text \<open>
  What the chat input and the sidebar's text inputs return in a render cycle;
  \<^verbatim>\<open>st.chat_input\<close> returns None when nothing was submitted.
\<close>

record inputs =
  user_input :: "string option"
  api_key :: string
  mm_model_name :: string
  assumptions_model_name :: string
  response_model_name :: string

text \<open>How the block under \<^verbatim>\<open>if user_input:\<close> ended.\<close>

datatype outcome =
    NoInput
  | MissingKey
  | PromptRaised error
  | ResponseRaised
  | Completed
  | SidebarRaised error
  | LockCheckRaised error

text \<open>
  Step 1: the mental model of the turn, its source tag, the session and the events.
\<close>

definition mental_model_step ::
  "world \<Rightarrow> inputs \<Rightarrow> string \<Rightarrow> session \<Rightarrow> dict \<times> mm_source \<times> session \<times> event list" where
  "mental_model_step W I text S =
     (if turn_index S = 0 then
        (case infer_mental_model_with_llm W text (mm_model_name I) of
           (mm_vals, ev) \<Rightarrow> (mm_vals, inferred_first_turn, S\<lparr>mm_values := mm_vals\<rparr>, ev))
      else if mm_locked S then (mm_values S, user_locked, S, [])
      else
        (case infer_mental_model_with_llm W text (mm_model_name I) of
           (mm_vals, ev) \<Rightarrow> (mm_vals, inferred_unlocked, S\<lparr>mm_values := mm_vals\<rparr>, ev)))"

text \<open>Step 2: the assumptions, from the transcript that includes this user message.\<close>

definition assumptions_step ::
  "world \<Rightarrow> inputs \<Rightarrow> session \<Rightarrow> assumption_entry list \<times> session \<times> event list" where
  "assumptions_step W I S =
     (case infer_uncertain_assumptions_with_llm W (build_history_text (messages S))
             (assumptions_model_name I) of
        (assumptions_json, ev) \<Rightarrow>
          (assumptions_json,
           S\<lparr>assumptions_latest := Some assumptions_json,
             assumptions_history := assumptions_history S @
               [\<lparr>h_turn_index = turn_index S + 1,
                 h_timestamp = now_history W @ ''Z'',
                 h_assumptions = assumptions_json\<rparr>]\<rparr>,
           ev))"

text \<open>
  Steps 3 and 4: the prompt, the call of the response model, which no \<^verbatim>\<open>try\<close> guards,
  and after it the assistant message, the turn counter and the log.
\<close>

definition response_step ::
  "world \<Rightarrow> inputs \<Rightarrow> string \<Rightarrow> dict \<Rightarrow> mm_source \<Rightarrow> assumption_entry list \<Rightarrow> session
     \<Rightarrow> outcome \<times> session \<times> event list" where
  "response_step W I text mm_vals mm_src assumptions_json S =
     (let convo_text = build_history_text (messages S) in
      case build_mental_model_preamble W mm_vals of
        Inl e \<Rightarrow> (PromptRaised e, S, [])
      | Inr preamble \<Rightarrow>
          (let req = ResponseRequest (response_model_name I) preamble convo_text in
           case llm W req of
             Raises \<Rightarrow> (ResponseRaised, S, [Called req])
           | OutputText assistant_reply \<Rightarrow>
               (let S' = S\<lparr>messages := messages S @ [\<lparr>role = Assistant, content = assistant_reply\<rparr>],
                            turn_index := turn_index S + 1\<rparr>
                in (Completed,
                    log_turn W (turn_index S') mm_vals mm_src assumptions_json text
                      assistant_reply (preamble, convo_text) S',
                    [Called req]))))"

text \<open>
  The block under \<^verbatim>\<open>if user_input:\<close>. Creating the client makes no call, and
  showing the messages and the rerun after the first turn store nothing; they are left
  out.
\<close>

definition turn :: "world \<Rightarrow> inputs \<Rightarrow> session \<Rightarrow> outcome \<times> session \<times> event list" where
  "turn W I S =
     (case user_input I of
        None \<Rightarrow> (NoInput, S, [])
      | Some text \<Rightarrow>
          if text = [] then (NoInput, S, [])
          else if api_key I = [] then (MissingKey, S, [StError])
          else
            (case mental_model_step W I text
                    (S\<lparr>messages := messages S @ [\<lparr>role = User, content = text\<rparr>]\<rparr>) of
               (mm_vals, mm_src, S1, ev1) \<Rightarrow>
                 (case assumptions_step W I S1 of
                    (assumptions_json, S2, ev2) \<Rightarrow>
                      (case response_step W I text mm_vals mm_src assumptions_json S2 of
                         (out, S3, ev3) \<Rightarrow> (out, S3, ev1 @ ev2 @ ev3)))))"

text \<open>
  One run of the script on the session: the sidebar builds the widgets from the stored
  mental model, the lock check compares what they return, then the chat input is
  handled. The widgets return the values they were built with, unless the user has set
  them: \<open>touched\<close> is None when the user has touched no control, and holds the values
  of the controls otherwise; before the first completed turn the widgets are disabled.
  An exception ends the run and keeps what was stored before it.
\<close>

definition render ::
  "world \<Rightarrow> controls option \<Rightarrow> inputs \<Rightarrow> session \<Rightarrow> outcome \<times> session \<times> event list" where
  "render W touched I S =
     (case widget_values W (mm_values S) of
        Inl e \<Rightarrow> (SidebarRaised e, S, [])
      | Inr shown \<Rightarrow>
          (case lock_check W
                  (if turn_index S = 0 then shown
                   else (case touched of None \<Rightarrow> shown | Some c \<Rightarrow> c)) S of
             Inl e \<Rightarrow> (LockCheckRaised e, S, [])
           | Inr S' \<Rightarrow> turn W I S'))"

text \<open>A session: the runs of the script, one after the other, from a given state.\<close>

fun run :: "(world \<times> controls option \<times> inputs) list \<Rightarrow> session \<Rightarrow> session" where
  "run [] S = S"
| "run ((W, touched, I) # rest) S = run rest (fst (snd (render W touched I S)))"

section \<open>Notions used to state the properties\<close>

text \<open>The declared range of a probability field: a number between 0 and 1.\<close>

fun in_unit_interval :: "json \<Rightarrow> bool" where
  "in_unit_interval (JFloat (Fin r)) = (0 \<le> r \<and> r \<le> 1)"
| "in_unit_interval (JInt i) = (0 \<le> i \<and> i \<le> 1)"
| "in_unit_interval (JBool b) = True"
| "in_unit_interval _ = False"

definition probability_fields :: "string list" where
  "probability_fields =
    [''user_certainty'', ''model_seen_as_expert'', ''validation_seeking'',
     ''objectivity_seeking'', ''empathy_expectation'', ''directness'', ''informativeness'']"

definition probabilities_in_range :: "dict \<Rightarrow> bool" where
  "probabilities_in_range d =
     list_all (\<lambda>k. case map_of d k of Some v \<Rightarrow> in_unit_interval v | None \<Rightarrow> False)
       probability_fields"

text \<open>Every field of a mental model lies in its declared range.\<close>

definition in_declared_ranges :: "dict \<Rightarrow> bool" where
  "in_declared_ranges d =
     (probabilities_in_range d
      \<and> (case map_of d ''expects_correction'' of Some (JBool b) \<Rightarrow> True | _ \<Rightarrow> False)
      \<and> (case map_of d ''assistant_role'' of Some (JStr r) \<Rightarrow> r \<in> set roles | _ \<Rightarrow> False))"

text \<open>
  The parsed values on which the overwriting loop raises: None, a bool and a number are
  no containers; a list or a str can hold a field name, and cannot be indexed by it.
\<close>

fun overwrite_raises :: "json \<Rightarrow> bool" where
  "overwrite_raises (JObj kvs) = False"
| "overwrite_raises (JArr xs) = list_ex (\<lambda>k. JStr k \<in> set xs) (map fst DEFAULT_MM)"
| "overwrite_raises (JStr s) = list_ex (\<lambda>k. str_contains k s) (map fst DEFAULT_MM)"
| "overwrite_raises _ = True"

text \<open>The sessions of a sequence of runs: the state before each run, and the last one.\<close>

fun states :: "(world \<times> controls option \<times> inputs) list \<Rightarrow> session \<Rightarrow> session list" where
  "states [] S = [S]"
| "states ((W, touched, I) # rest) S = S # states rest (fst (snd (render W touched I S)))"

text \<open>The requests for a mental model among the events of a run.\<close>

fun mental_model_requests :: "event list \<Rightarrow> request list" where
  "mental_model_requests [] = []"
| "mental_model_requests (Called (MentalModelRequest m t) # es) =
     MentalModelRequest m t # mental_model_requests es"
| "mental_model_requests (e # es) = mental_model_requests es"

fun response_requests :: "event list \<Rightarrow> request list" where
  "response_requests [] = []"
| "response_requests (Called (ResponseRequest m p t) # es) =
     ResponseRequest m p t # response_requests es"
| "response_requests (e # es) = response_requests es"

fun calls :: "event list \<Rightarrow> request list" where
  "calls [] = []"
| "calls (Called r # es) = r # calls es"
| "calls (e # es) = calls es"

text \<open>
  An item that the loop of the assumption inferencer does not skip: a dict with the keys
  \<^verbatim>\<open>assumption\<close> and \<^verbatim>\<open>probability\<close>.
\<close>

fun has_both_keys :: "json \<Rightarrow> bool" where
  "has_both_keys (JObj kvs) =
     (map_of kvs ''assumption'' \<noteq> None \<and> map_of kvs ''probability'' \<noteq> None)"
| "has_both_keys _ = False"

text \<open>What the loop appends for an item: nothing or one entry.\<close>

definition kept :: "world \<Rightarrow> json \<Rightarrow> assumption_entry list" where
  "kept W item = (case clean_item W item of Inr (Some c) \<Rightarrow> [c] | _ \<Rightarrow> [])"

text \<open>Whether \<^verbatim>\<open>float\<close> raises on the probability of an item that is not skipped.\<close>

definition float_raises :: "world \<Rightarrow> json \<Rightarrow> bool" where
  "float_raises W item = (case clean_item W item of Inl e \<Rightarrow> True | Inr r \<Rightarrow> False)"

text \<open>
  The list under \<^verbatim>\<open>"assumptions"\<close> of a response that the service returned, that
  parses, and that has the expected shape; None is a top-level failure.
\<close>

definition parsed_items :: "world \<Rightarrow> request \<Rightarrow> json list option" where
  "parsed_items W req =
     (case llm W req of
        Raises \<Rightarrow> None
      | OutputText t \<Rightarrow> (case loads W t of None \<Rightarrow> None | Some data \<Rightarrow> assumptions_of data))"

text \<open>
  What a turn that passes the key check stores before it calls the response model: the
  mental model of the turn, the assumptions, and the session with both.
\<close>

definition turn_mm :: "world \<Rightarrow> inputs \<Rightarrow> string \<Rightarrow> session \<Rightarrow> dict" where
  "turn_mm W I text S =
     (if turn_index S \<noteq> 0 \<and> mm_locked S then mm_values S
      else fst (infer_mental_model_with_llm W text (mm_model_name I)))"

definition turn_assumptions :: "world \<Rightarrow> inputs \<Rightarrow> string \<Rightarrow> session \<Rightarrow> assumption_entry list" where
  "turn_assumptions W I text S =
     fst (infer_uncertain_assumptions_with_llm W
            (build_history_text (messages S @ [\<lparr>role = User, content = text\<rparr>]))
            (assumptions_model_name I))"

definition before_response :: "world \<Rightarrow> inputs \<Rightarrow> string \<Rightarrow> session \<Rightarrow> session" where
  "before_response W I text S =
     S\<lparr>messages := messages S @ [\<lparr>role = User, content = text\<rparr>],
       mm_values := turn_mm W I text S,
       assumptions_latest := Some (turn_assumptions W I text S),
       assumptions_history := assumptions_history S @
         [\<lparr>h_turn_index = turn_index S + 1,
           h_timestamp = now_history W @ ''Z'',
           h_assumptions = turn_assumptions W I text S\<rparr>]\<rparr>"

section \<open>A world for concrete runs\<close>

text \<open>
  The service answers each kind of request with a fixed reply; \<^verbatim>\<open>json.loads\<close> is
  given by a table of texts and their values and raises on every other text;
  \<^verbatim>\<open>str\<close> prints a bool and None as Python does, and \<^verbatim>\<open>format(x, '.2f')\<close> is
  given for the floats that occur. The runs evaluated below hold no str under
  \<^verbatim>\<open>probability\<close> and apply \<^verbatim>\<open>str\<close> to no number, list or dict, and the
  only differences of floats they take are of a float and itself, which is zero and a
  double; so the world is not consulted outside what it gives.
\<close>

definition scripted :: "reply \<Rightarrow> reply \<Rightarrow> reply \<Rightarrow> request \<Rightarrow> reply" where
  "scripted a b c r =
     (case r of
        MentalModelRequest m t \<Rightarrow> a
      | AssumptionsRequest m t \<Rightarrow> b
      | ResponseRequest m p t \<Rightarrow> c)"

definition example_world :: "reply \<Rightarrow> reply \<Rightarrow> reply \<Rightarrow> (string \<times> json) list \<Rightarrow> world" where
  "example_world a b c parses =
     \<lparr>llm = scripted a b c,
      loads = map_of parses,
      float_str = (\<lambda>s. None),
      str_other = (\<lambda>j. case j of JBool b \<Rightarrow> (if b then ''True'' else ''False'')
                          | JNull \<Rightarrow> ''None'' | _ \<Rightarrow> []),
      fmt2f = (\<lambda>f. case map_of [(Fin 0.5, ''0.50''), (Fin 0.6, ''0.60''), (Fin 0.7, ''0.70''),
                                   (Fin 0.8, ''0.80''), (Fin 0.9, ''0.90'')] f of
                       Some s \<Rightarrow> s | None \<Rightarrow> []),
      round_double = Fin,
      now_history = ''2025-01-01T00:00:00'',
      now_log = ''2025-01-01T00:00:01''\<rparr>"

definition example_inputs :: "string option \<Rightarrow> string \<Rightarrow> inputs" where
  "example_inputs msg key =
     \<lparr>user_input = msg, api_key = key, mm_model_name = ''gpt-5.1-mini'',
      assumptions_model_name = ''gpt-5.1-mini'', response_model_name = ''gpt-5.1''\<rparr>"

text \<open>
  A response of the assumptions call with four items: probabilities 1.5 and -0.3, a str,
  and a dict without \<^verbatim>\<open>probability\<close>.
\<close>

definition clamp_example_text :: string where
  "clamp_example_text = ''{\"assumptions\": [{\"assumption\": \"in a hurry\", \"probability\": 1.5, \"evidence\": \"asks twice\"}, \"note\", {\"assumption\": \"no number\"}, {\"assumption\": \"is an expert\", \"probability\": -0.3}]}''"

definition clamp_example_json :: json where
  "clamp_example_json =
     JObj [(''assumptions'', JArr
       [JObj [(''assumption'', JStr ''in a hurry''), (''probability'', JFloat (Fin 1.5)),
              (''evidence'', JStr ''asks twice'')],
        JStr ''note'',
        JObj [(''assumption'', JStr ''no number'')],
        JObj [(''assumption'', JStr ''is an expert''), (''probability'', JFloat (Fin (- 0.3)))]])]"

definition clamp_example_world :: world where
  "clamp_example_world =
     example_world Raises (OutputText clamp_example_text) Raises
       [(clamp_example_text, clamp_example_json)]"

text \<open>A response whose first item has \<^verbatim>\<open>null\<close> under \<^verbatim>\<open>probability\<close>.\<close>

definition null_probability_text :: string where
  "null_probability_text = ''{\"assumptions\": [{\"assumption\": \"is tired\", \"probability\": null}, {\"assumption\": \"wants a summary\", \"probability\": 0.5}]}''"

definition null_probability_json :: json where
  "null_probability_json =
     JObj [(''assumptions'', JArr
       [JObj [(''assumption'', JStr ''is tired''), (''probability'', JNull)],
        JObj [(''assumption'', JStr ''wants a summary''), (''probability'', JFloat (Fin 0.5))]])]"

definition null_probability_world :: world where
  "null_probability_world =
     example_world Raises (OutputText null_probability_text) Raises
       [(null_probability_text, null_probability_json)]"

text \<open>A response with eleven items, none of which has \<^verbatim>\<open>evidence\<close>.\<close>

definition early_item :: json where
  "early_item = JObj [(''assumption'', JStr ''early''), (''probability'', JFloat (Fin 0.5))]"

definition eleventh_item :: json where
  "eleventh_item = JObj [(''assumption'', JStr ''eleventh''), (''probability'', JFloat (Fin 0.5))]"

definition eleven_items_text :: string where
  "eleven_items_text =
     ''{\"assumptions\": [''
     @ concat (replicate 10 ''{\"assumption\": \"early\", \"probability\": 0.5}, '')
     @ ''{\"assumption\": \"eleventh\", \"probability\": 0.5}]}''"

definition eleven_items_json :: json where
  "eleven_items_json = JObj [(''assumptions'', JArr (replicate 10 early_item @ [eleventh_item]))]"

definition eleven_items_world :: world where
  "eleven_items_world =
     example_world Raises (OutputText eleven_items_text) Raises
       [(eleven_items_text, eleven_items_json)]"

text \<open>
  A conversation: the mental-model call answers \<^verbatim>\<open>{"directness": 0.9}\<close>, the
  assumptions call answers the example response, the response call answers as given.
\<close>

definition chat_world :: "reply \<Rightarrow> world" where
  "chat_world answer =
     example_world (OutputText ''{\"directness\": 0.9}'') (OutputText clamp_example_text) answer
       [(''{\"directness\": 0.9}'', JObj [(''directness'', JFloat (Fin 0.9))]),
        (clamp_example_text, clamp_example_json)]"

definition inferred_mm :: dict where
  "inferred_mm =
    [(''user_certainty'', JFloat (Fin 0.5)),
     (''model_seen_as_expert'', JFloat (Fin 0.8)),
     (''expects_correction'', JBool True),
     (''validation_seeking'', JFloat (Fin 0.5)),
     (''objectivity_seeking'', JFloat (Fin 0.5)),
     (''empathy_expectation'', JFloat (Fin 0.5)),
     (''directness'', JFloat (Fin 0.9)),
     (''informativeness'', JFloat (Fin 0.7)),
     (''assistant_role'', JStr ''Neutral assistant'')]"

definition example_assumptions :: "assumption_entry list" where
  "example_assumptions =
     [\<lparr>assumption = ''in a hurry'', probability = Fin 1, evidence = ''asks twice''\<rparr>,
      \<lparr>assumption = ''is an expert'', probability = Fin 0, evidence = []\<rparr>]"

text \<open>
  The session after the first turn of the conversation.
\<close>

definition after_first_turn :: session where
  "after_first_turn =
     \<lparr>messages = [\<lparr>role = User, content = ''hello''\<rparr>,
                  \<lparr>role = Assistant, content = ''Happy to help.''\<rparr>],
      mm_values = inferred_mm,
      turn_index = 1,
      turn_logs =
        [\<lparr>log_turn_index = 1, log_timestamp = ''2025-01-01T00:00:01Z'',
          log_mm_locked = False, log_mental_model = inferred_mm,
          log_mental_model_source = inferred_first_turn,
          log_assumptions = example_assumptions,
          log_user_message = ''hello'', log_assistant_message = ''Happy to help.'',
          log_combined_prompt =
            ([''0.50'', ''0.80'', ''True'', ''0.50'', ''0.50'', ''0.50'', ''0.90'', ''0.70'',
              ''Neutral assistant''], ''User: hello''),
          log_conversation_so_far =
            [\<lparr>role = User, content = ''hello''\<rparr>,
             \<lparr>role = Assistant, content = ''Happy to help.''\<rparr>]\<rparr>],
      mm_locked = False,
      assumptions_latest = Some example_assumptions,
      assumptions_history =
        [\<lparr>h_turn_index = 1, h_timestamp = ''2025-01-01T00:00:00Z'',
          h_assumptions = example_assumptions\<rparr>]\<rparr>"

text \<open>
  A conversation in which the mental-model call answers \<^verbatim>\<open>{"expects_correction": null}\<close>:
  the mental model it stores, the session after the first turn, the values the widgets
  are then built with, the session after the lock check has run on them, and two runs of
  the script in which the user touches no control: the first message, and the rerun that
  follows the first reply.
\<close>

definition null_mm_text :: string where
  "null_mm_text = ''{\"expects_correction\": null}''"

definition null_world :: world where
  "null_world =
     example_world (OutputText null_mm_text) (OutputText clamp_example_text)
       (OutputText ''Happy to help.'')
       [(null_mm_text, JObj [(''expects_correction'', JNull)]),
        (clamp_example_text, clamp_example_json)]"

definition null_mm :: dict where
  "null_mm =
    [(''user_certainty'', JFloat (Fin 0.5)),
     (''model_seen_as_expert'', JFloat (Fin 0.8)),
     (''expects_correction'', JNull),
     (''validation_seeking'', JFloat (Fin 0.5)),
     (''objectivity_seeking'', JFloat (Fin 0.5)),
     (''empathy_expectation'', JFloat (Fin 0.5)),
     (''directness'', JFloat (Fin 0.5)),
     (''informativeness'', JFloat (Fin 0.7)),
     (''assistant_role'', JStr ''Neutral assistant'')]"

definition after_null_turn :: session where
  "after_null_turn =
     \<lparr>messages = [\<lparr>role = User, content = ''hello''\<rparr>,
                  \<lparr>role = Assistant, content = ''Happy to help.''\<rparr>],
      mm_values = null_mm,
      turn_index = 1,
      turn_logs =
        [\<lparr>log_turn_index = 1, log_timestamp = ''2025-01-01T00:00:01Z'',
          log_mm_locked = False, log_mental_model = null_mm,
          log_mental_model_source = inferred_first_turn,
          log_assumptions = example_assumptions,
          log_user_message = ''hello'', log_assistant_message = ''Happy to help.'',
          log_combined_prompt =
            ([''0.50'', ''0.80'', ''None'', ''0.50'', ''0.50'', ''0.50'', ''0.50'', ''0.70'',
              ''Neutral assistant''], ''User: hello''),
          log_conversation_so_far =
            [\<lparr>role = User, content = ''hello''\<rparr>,
             \<lparr>role = Assistant, content = ''Happy to help.''\<rparr>]\<rparr>],
      mm_locked = False,
      assumptions_latest = Some example_assumptions,
      assumptions_history =
        [\<lparr>h_turn_index = 1, h_timestamp = ''2025-01-01T00:00:00Z'',
          h_assumptions = example_assumptions\<rparr>]\<rparr>"

definition untouched_controls :: controls where
  "untouched_controls =
     \<lparr>user_certainty = Fin 0.5, model_seen_as_expert = Fin 0.8, expects_correction = False,
      validation_seeking = Fin 0.5, objectivity_seeking = Fin 0.5,
      empathy_expectation = Fin 0.5, directness = Fin 0.5, informativeness = Fin 0.7,
      assistant_role = ''Neutral assistant''\<rparr>"

definition null_locked :: session where
  "null_locked =
     after_null_turn\<lparr>mm_locked := True, mm_values := current_from_controls untouched_controls\<rparr>"

definition null_cycles :: "(world \<times> controls option \<times> inputs) list" where
  "null_cycles =
     [(null_world, None, example_inputs (Some ''hello'') ''sk-test''),
      (null_world, None, example_inputs None ''sk-test'')]"

section \<open>The mental-model inferencer: what it returns\<close>

lemma overwrite_defaults_dict:
  "overwrite_defaults (JObj kvs) d =
     Inr (map (\<lambda>(k, dv). (k, case map_of kvs k of Some v \<Rightarrow> v | None \<Rightarrow> dv)) d)"
  by (induction d) (auto split: option.splits)

lemma overwrite_defaults_list:
  "overwrite_defaults (JArr xs) d =
     (if list_ex (\<lambda>k. JStr k \<in> set xs) (map fst d) then Inl TypeError else Inr d)"
  by (induction d) auto

lemma overwrite_defaults_str:
  "overwrite_defaults (JStr s) d =
     (if list_ex (\<lambda>k. str_contains k s) (map fst d) then Inl TypeError else Inr d)"
  by (induction d) auto

lemma overwrite_defaults_not_dict:
  "\<not> is_dict j \<Longrightarrow>
     overwrite_defaults j DEFAULT_MM =
       (if overwrite_raises j then Inl TypeError else Inr DEFAULT_MM)"
  by (cases j)
     (simp_all add: overwrite_defaults_list overwrite_defaults_str, simp_all add: DEFAULT_MM_def)

lemma default_in_declared_ranges: "in_declared_ranges DEFAULT_MM"
  by (simp add: in_declared_ranges_def probabilities_in_range_def probability_fields_def
      DEFAULT_MM_def roles_def)

text \<open>
  Claim C1. The claim: whatever numbers the parsed response holds, the seven probability
  fields of the returned mental model lie in [0,1]. The inferencer copies each value of
  the response as it is. When the service answers \<^verbatim>\<open>{"user_certainty": 1.5}\<close>, the
  returned mental model holds 1.5 under \<^verbatim>\<open>user_certainty\<close>, no warning is shown, and
  the probabilities are not all in range.
\<close>

theorem mm_inferencer_keeps_out_of_range_value:
  "infer_mental_model_with_llm
     (example_world (OutputText ''{\"user_certainty\": 1.5}'') Raises Raises
        [(''{\"user_certainty\": 1.5}'', JObj [(''user_certainty'', JFloat (Fin 1.5))])])
     ''hello'' ''gpt-5.1-mini''
   = ((''user_certainty'', JFloat (Fin 1.5)) # tl DEFAULT_MM,
      [Called (MentalModelRequest ''gpt-5.1-mini'' ''hello'')])
   \<and> \<not> probabilities_in_range ((''user_certainty'', JFloat (Fin 1.5)) # tl DEFAULT_MM)"
  by (simp add: infer_mental_model_with_llm_def example_world_def scripted_def DEFAULT_MM_def
      probabilities_in_range_def probability_fields_def)

text \<open>
  What the inferencer returns when the call raises, or the response text is not valid
  JSON, or it parses to a value that is not a dict: the default mental model, every field
  of which lies in its declared range. The warning is shown when the call raised, the
  text is not valid JSON, or the overwriting loop raised: on None, a bool or a number,
  and on a list or a str that holds one of the nine field names.
\<close>

lemma mm_inferencer_fallback:
  assumes "llm W (MentalModelRequest model_name text) = Raises
     \<or> (\<exists>t. llm W (MentalModelRequest model_name text) = OutputText t
            \<and> (loads W t = None \<or> (\<exists>j. loads W t = Some j \<and> \<not> is_dict j)))"
  shows "fst (infer_mental_model_with_llm W text model_name) = DEFAULT_MM
     \<and> in_declared_ranges (fst (infer_mental_model_with_llm W text model_name))
     \<and> snd (infer_mental_model_with_llm W text model_name) =
         (if llm W (MentalModelRequest model_name text) = Raises
             \<or> (\<exists>t. llm W (MentalModelRequest model_name text) = OutputText t
                    \<and> (loads W t = None \<or> (\<exists>j. loads W t = Some j \<and> overwrite_raises j)))
          then [Called (MentalModelRequest model_name text), StWarning]
          else [Called (MentalModelRequest model_name text)])"
  using assms
  by (auto simp: infer_mental_model_with_llm_def default_in_declared_ranges
      overwrite_defaults_not_dict split: reply.splits option.splits)

text \<open>
  Claim C5. The claim: on a response that is not valid JSON or is not an object the
  inferencer catches the error, shows a warning and returns the default mental model.
  The defaults are returned (the lemma above), but the inferencer never checks that the
  parsed value is a dict, as the assumption inferencer does. The response \<^verbatim>\<open>[]\<close>
  is valid JSON and not an object: no key is \<^verbatim>\<open>in\<close> the list, the loop ends with no
  exception, and the defaults are returned with no warning.
\<close>

theorem mm_inferencer_silent_on_empty_list:
  "loads (example_world (OutputText ''[]'') Raises Raises [(''[]'', JArr [])]) ''[]''
     = Some (JArr [])
   \<and> \<not> is_dict (JArr [])
   \<and> infer_mental_model_with_llm
        (example_world (OutputText ''[]'') Raises Raises [(''[]'', JArr [])])
        ''hello'' ''gpt-5.1-mini''
      = (DEFAULT_MM, [Called (MentalModelRequest ''gpt-5.1-mini'' ''hello'')])
   \<and> StWarning \<notin> set [Called (MentalModelRequest ''gpt-5.1-mini'' ''hello'')]"
  by (simp add: infer_mental_model_with_llm_def example_world_def scripted_def DEFAULT_MM_def)

section \<open>The assumption inferencer: what it returns\<close>

lemma clamp01_Fin: "clamp01 (Fin r) = Fin (max 0 (min 1 r))"
  by (auto simp: clamp01_def py_min_def py_max_def)

lemma clamp01_special: "clamp01 PosInf = Fin 1" "clamp01 NegInf = Fin 0" "clamp01 NaN = Fin 1"
  by (simp_all add: clamp01_def py_min_def py_max_def)

lemma clamp01_range: "\<exists>r. clamp01 p = Fin r \<and> 0 \<le> r \<and> r \<le> 1"
  by (cases p) (auto simp: clamp01_Fin clamp01_special)

lemma clean_item_Some:
  "clean_item W item = Inr (Some c) \<Longrightarrow>
     \<exists>kvs a p f. item = JObj kvs \<and> map_of kvs ''assumption'' = Some a
        \<and> map_of kvs ''probability'' = Some p \<and> py_float W p = Inr f
        \<and> c = \<lparr>assumption = py_str W a, probability = clamp01 f,
                evidence = py_str W (case map_of kvs ''evidence'' of None \<Rightarrow> JStr [] | Some v \<Rightarrow> v)\<rparr>"
  by (cases item) (auto split: option.splits sum.splits)

lemma clean_item_None: "clean_item W item = Inr None \<longleftrightarrow> \<not> has_both_keys item"
  by (cases item) (auto split: option.splits sum.splits)

lemma clean_items_ok:
  "\<not> list_ex (float_raises W) xs \<Longrightarrow> clean_items W xs = Inr (concat (map (kept W) xs))"
  by (induction xs) (auto simp: kept_def float_raises_def split: sum.splits option.splits)

lemma clean_items_raises:
  "list_ex (float_raises W) xs \<Longrightarrow> \<exists>e. clean_items W xs = Inl e"
  by (induction xs) (auto simp: float_raises_def split: sum.splits option.splits)

lemma infer_assumptions_closed:
  "infer_uncertain_assumptions_with_llm W convo model =
     (case parsed_items W (AssumptionsRequest model convo) of
        None \<Rightarrow> ([], [Called (AssumptionsRequest model convo), StWarning])
      | Some items \<Rightarrow>
          if list_ex (float_raises W) (take 10 items)
          then ([], [Called (AssumptionsRequest model convo), StWarning])
          else (concat (map (kept W) (take 10 items)), [Called (AssumptionsRequest model convo)]))"
proof (cases "parsed_items W (AssumptionsRequest model convo)")
  case None
  then show ?thesis
    by (auto simp: infer_uncertain_assumptions_with_llm_def parsed_items_def
        split: reply.splits option.splits)
next
  case (Some items)
  show ?thesis
  proof (cases "list_ex (float_raises W) (take 10 items)")
    case True
    from clean_items_raises[OF True] obtain e where "clean_items W (take 10 items) = Inl e" ..
    with Some True show ?thesis
      by (auto simp: infer_uncertain_assumptions_with_llm_def parsed_items_def
          split: reply.splits option.splits)
  next
    case False
    from clean_items_ok[OF False] Some False show ?thesis
      by (auto simp: infer_uncertain_assumptions_with_llm_def parsed_items_def
          split: reply.splits option.splits)
  qed
qed

lemma infer_assumptions_member:
  assumes "e \<in> set (fst (infer_uncertain_assumptions_with_llm W convo model))"
  shows "\<exists>items item. parsed_items W (AssumptionsRequest model convo) = Some items
           \<and> item \<in> set (take 10 items) \<and> clean_item W item = Inr (Some e)"
  using assms
  by (auto simp: infer_assumptions_closed kept_def split: option.splits if_splits sum.splits)

lemma infer_assumptions_length:
  "length (fst (infer_uncertain_assumptions_with_llm W convo model)) \<le> 10"
proof -
  have "length (concat (map (kept W) xs)) \<le> length xs" for xs
    by (induction xs) (auto simp: kept_def split: sum.splits option.splits)
  from this[of "take 10 items" for items] show ?thesis
    by (auto simp: infer_assumptions_closed split: option.splits intro: order_trans)
qed

lemma clamp_example_run:
  "infer_uncertain_assumptions_with_llm clamp_example_world ''User: hi'' ''gpt-5.1-mini'' =
     ([\<lparr>assumption = ''in a hurry'', probability = Fin 1, evidence = ''asks twice''\<rparr>,
       \<lparr>assumption = ''is an expert'', probability = Fin 0, evidence = []\<rparr>],
      [Called (AssumptionsRequest ''gpt-5.1-mini'' ''User: hi'')])"
  by (simp add: infer_uncertain_assumptions_with_llm_def clamp_example_world_def
      example_world_def scripted_def clamp_example_json_def clamp01_def py_min_def py_max_def)

lemma kept_empty: "kept W item = [] \<longleftrightarrow> (\<not> has_both_keys item \<or> float_raises W item)"
  by (cases item) (auto simp: kept_def float_raises_def split: option.splits sum.splits)

lemma float_raises_iff:
  "float_raises W item \<longleftrightarrow>
     has_both_keys item
     \<and> (\<exists>kvs p e. item = JObj kvs \<and> map_of kvs ''probability'' = Some p \<and> py_float W p = Inl e)"
  by (cases item) (auto simp: float_raises_def split: option.splits sum.splits)

lemma kept_entry:
  "map_of kvs ''assumption'' = Some a \<Longrightarrow> map_of kvs ''probability'' = Some p \<Longrightarrow>
   py_float W p = Inr f \<Longrightarrow>
   kept W (JObj kvs) =
     [\<lparr>assumption = py_str W a, probability = clamp01 f,
       evidence = py_str W (case map_of kvs ''evidence'' of None \<Rightarrow> JStr [] | Some v \<Rightarrow> v)\<rparr>]"
  by (simp add: kept_def)

text \<open>
  Claim C6. The returned list has at most ten entries. The probability of every entry is
  a finite number in [0,1], and it is the clamped \<^verbatim>\<open>float\<close> of the value under
  \<^verbatim>\<open>probability\<close> of one of the first ten items of the response. Clamping maps a
  finite value to the nearest point of [0,1], so 1.5 gives 1.0 and -0.3 gives 0.0; the
  infinities and NaN give 1.0, 0.0 and 1.0; and \<^verbatim>\<open>float\<close> raises on no float of the
  response, in range or out of it.
\<close>

theorem assumptions_capped_and_clamped:
  "length (fst (infer_uncertain_assumptions_with_llm W convo model)) \<le> 10
   \<and> (\<forall>e \<in> set (fst (infer_uncertain_assumptions_with_llm W convo model)).
        (\<exists>r. probability e = Fin r \<and> 0 \<le> r \<and> r \<le> 1)
        \<and> (\<exists>items kvs p f. parsed_items W (AssumptionsRequest model convo) = Some items
              \<and> JObj kvs \<in> set (take 10 items) \<and> map_of kvs ''probability'' = Some p
              \<and> py_float W p = Inr f \<and> probability e = clamp01 f))
   \<and> (\<forall>r. clamp01 (Fin r) = Fin (max 0 (min 1 r)))
   \<and> clamp01 (Fin 1.5) = Fin 1 \<and> clamp01 (Fin (- 0.3)) = Fin 0
   \<and> clamp01 PosInf = Fin 1 \<and> clamp01 NegInf = Fin 0 \<and> clamp01 NaN = Fin 1
   \<and> (\<forall>f. py_float W (JFloat f) = Inr f)"
proof -
  have a: "length (fst (infer_uncertain_assumptions_with_llm W convo model)) \<le> 10"
    by (rule infer_assumptions_length)
  have b: "(\<exists>r. probability e = Fin r \<and> 0 \<le> r \<and> r \<le> 1)
        \<and> (\<exists>items kvs p f. parsed_items W (AssumptionsRequest model convo) = Some items
              \<and> JObj kvs \<in> set (take 10 items) \<and> map_of kvs ''probability'' = Some p
              \<and> py_float W p = Inr f \<and> probability e = clamp01 f)"
    if "e \<in> set (fst (infer_uncertain_assumptions_with_llm W convo model))" for e
  proof -
    from infer_assumptions_member[OF that] obtain items item where
      i: "parsed_items W (AssumptionsRequest model convo) = Some items"
         "item \<in> set (take 10 items)" "clean_item W item = Inr (Some e)" by blast
    from clean_item_Some[OF i(3)] obtain kvs a p f where
      k: "item = JObj kvs" "map_of kvs ''probability'' = Some p" "py_float W p = Inr f"
         "probability e = clamp01 f" by auto
    from clamp01_range[of f] k(4) have "\<exists>r. probability e = Fin r \<and> 0 \<le> r \<and> r \<le> 1" by simp
    with i k show ?thesis by blast
  qed
  show ?thesis
    using a b by (simp add: clamp01_Fin clamp01_special)
qed

text \<open>
  The theorem at a response with the probabilities 1.5 and -0.3: two entries, with 1.0
  and 0.0.
\<close>

theorem assumptions_capped_and_clamped_witness:
  "fst (infer_uncertain_assumptions_with_llm clamp_example_world ''User: hi'' ''gpt-5.1-mini'') =
     [\<lparr>assumption = ''in a hurry'', probability = Fin 1, evidence = ''asks twice''\<rparr>,
      \<lparr>assumption = ''is an expert'', probability = Fin 0, evidence = []\<rparr>]
   \<and> length (fst (infer_uncertain_assumptions_with_llm clamp_example_world ''User: hi''
        ''gpt-5.1-mini'')) \<le> 10
   \<and> (\<exists>r. probability \<lparr>assumption = ''in a hurry'', probability = Fin 1,
                       evidence = ''asks twice''\<rparr> = Fin r \<and> 0 \<le> r \<and> r \<le> 1)"
  using assumptions_capped_and_clamped
    [of clamp_example_world "''User: hi''" "''gpt-5.1-mini''"]
  by (simp add: clamp_example_run)

text \<open>
  What the inferencer returns on a response that parses to a dict with a list under the
  key. It looks at the first ten items. An item is skipped exactly when it is not a dict
  or lacks the key \<^verbatim>\<open>assumption\<close> or the key \<^verbatim>\<open>probability\<close>. If
  \<^verbatim>\<open>float\<close> accepts the probability of every other item among them, each of those
  is kept, in order. If \<^verbatim>\<open>float\<close> raises on one of them, the exception leaves the
  loop and the result is the empty list with the warning, as on a top-level failure.
\<close>

lemma assumptions_dropped_or_all_lost:
  "(\<forall>items. parsed_items W (AssumptionsRequest model convo) = Some items \<longrightarrow>
      infer_uncertain_assumptions_with_llm W convo model =
        (if list_ex (float_raises W) (take 10 items)
         then ([], [Called (AssumptionsRequest model convo), StWarning])
         else (concat (map (kept W) (take 10 items)),
               [Called (AssumptionsRequest model convo)])))
   \<and> (parsed_items W (AssumptionsRequest model convo) = None \<longrightarrow>
        infer_uncertain_assumptions_with_llm W convo model =
          ([], [Called (AssumptionsRequest model convo), StWarning]))
   \<and> (\<forall>item. clean_item W item = Inr None \<longleftrightarrow> \<not> has_both_keys item)
   \<and> (\<forall>item. kept W item = [] \<longleftrightarrow> (\<not> has_both_keys item \<or> float_raises W item))
   \<and> (\<forall>item. float_raises W item \<longleftrightarrow>
         has_both_keys item
         \<and> (\<exists>kvs p e. item = JObj kvs \<and> map_of kvs ''probability'' = Some p
                \<and> py_float W p = Inl e))
   \<and> (\<forall>kvs a p f. map_of kvs ''assumption'' = Some a \<and> map_of kvs ''probability'' = Some p
          \<and> py_float W p = Inr f \<longrightarrow>
        kept W (JObj kvs) =
          [\<lparr>assumption = py_str W a, probability = clamp01 f,
            evidence = py_str W (case map_of kvs ''evidence'' of
                                   None \<Rightarrow> JStr [] | Some v \<Rightarrow> v)\<rparr>])"
proof -
  have a: "\<forall>items. parsed_items W (AssumptionsRequest model convo) = Some items \<longrightarrow>
      infer_uncertain_assumptions_with_llm W convo model =
        (if list_ex (float_raises W) (take 10 items)
         then ([], [Called (AssumptionsRequest model convo), StWarning])
         else (concat (map (kept W) (take 10 items)),
               [Called (AssumptionsRequest model convo)]))"
    by (simp add: infer_assumptions_closed)
  have b: "parsed_items W (AssumptionsRequest model convo) = None \<longrightarrow>
        infer_uncertain_assumptions_with_llm W convo model =
          ([], [Called (AssumptionsRequest model convo), StWarning])"
    by (simp add: infer_assumptions_closed)
  have c: "\<forall>item. kept W item = [] \<longleftrightarrow> (\<not> has_both_keys item \<or> float_raises W item)"
    by (simp add: kept_empty)
  have d: "\<forall>item. float_raises W item \<longleftrightarrow>
         has_both_keys item
         \<and> (\<exists>kvs p e. item = JObj kvs \<and> map_of kvs ''probability'' = Some p
                \<and> py_float W p = Inl e)"
    using float_raises_iff by blast
  have e: "\<forall>kvs a p f. map_of kvs ''assumption'' = Some a \<and> map_of kvs ''probability'' = Some p
          \<and> py_float W p = Inr f \<longrightarrow>
        kept W (JObj kvs) =
          [\<lparr>assumption = py_str W a, probability = clamp01 f,
            evidence = py_str W (case map_of kvs ''evidence'' of
                                   None \<Rightarrow> JStr [] | Some v \<Rightarrow> v)\<rparr>]"
    using kept_entry by blast
  have f: "\<forall>item. clean_item W item = Inr None \<longleftrightarrow> \<not> has_both_keys item"
    by (simp add: clean_item_None)
  from a b c d e f show ?thesis by blast
qed

text \<open>
  Claim C7. The claim: the entries that lack an assumption or a numeric probability are
  dropped one by one, every other entry is kept, and the empty list is returned only on a
  top-level failure. The loop skips an item that is no dict or lacks a key, but lets
  \<^verbatim>\<open>float\<close> raise on a probability that is no number. On a response with two items, the
  first with \<^verbatim>\<open>null\<close> under \<^verbatim>\<open>probability\<close> and the second valid, the
  inferencer returns the empty list with the warning: the valid entry is lost, and the
  response had the expected top-level shape.
\<close>

theorem assumptions_all_lost_on_null_probability:
  "parsed_items null_probability_world (AssumptionsRequest ''gpt-5.1-mini'' ''User: hi'') =
     Some [JObj [(''assumption'', JStr ''is tired''), (''probability'', JNull)],
           JObj [(''assumption'', JStr ''wants a summary''),
                 (''probability'', JFloat (Fin 0.5))]]
   \<and> has_both_keys (JObj [(''assumption'', JStr ''wants a summary''),
                           (''probability'', JFloat (Fin 0.5))])
   \<and> py_float null_probability_world (JFloat (Fin 0.5)) = Inr (Fin 0.5)
   \<and> infer_uncertain_assumptions_with_llm null_probability_world ''User: hi'' ''gpt-5.1-mini'' =
       ([], [Called (AssumptionsRequest ''gpt-5.1-mini'' ''User: hi''), StWarning])"
  by (simp add: infer_uncertain_assumptions_with_llm_def parsed_items_def
      null_probability_world_def example_world_def scripted_def null_probability_json_def)

text \<open>
  Claim C10, as amended. An item that is a dict with the keys \<^verbatim>\<open>assumption\<close> and
  \<^verbatim>\<open>probability\<close> and without \<^verbatim>\<open>evidence\<close> is not skipped: when
  \<^verbatim>\<open>float\<close> accepts its probability it gives the entry with the assumption as a
  str, the clamped probability and the empty str as evidence (\<^verbatim>\<open>str\<close> leaves a str
  as it is). When it stands among the first ten items of a response and the inferencer
  returns without the warning, that entry is in the returned list.
\<close>

theorem entry_without_evidence_kept:
  assumes "map_of kvs ''assumption'' = Some a"
    and "map_of kvs ''probability'' = Some p"
    and "map_of kvs ''evidence'' = None"
  shows "clean_item W (JObj kvs) \<noteq> Inr None
     \<and> (\<forall>f. py_float W p = Inr f \<longrightarrow>
           clean_item W (JObj kvs) =
             Inr (Some \<lparr>assumption = py_str W a, probability = clamp01 f, evidence = []\<rparr>))
     \<and> (\<forall>items. parsed_items W (AssumptionsRequest model convo) = Some items
            \<and> JObj kvs \<in> set (take 10 items)
            \<and> snd (infer_uncertain_assumptions_with_llm W convo model) =
                [Called (AssumptionsRequest model convo)] \<longrightarrow>
          (\<exists>f. py_float W p = Inr f
              \<and> \<lparr>assumption = py_str W a, probability = clamp01 f, evidence = []\<rparr>
                  \<in> set (fst (infer_uncertain_assumptions_with_llm W convo model))))
     \<and> (\<forall>s. py_str W (JStr s) = s)"
proof -
  have a: "clean_item W (JObj kvs) \<noteq> Inr None"
    using assms by (simp split: sum.splits)
  have b: "\<forall>f. py_float W p = Inr f \<longrightarrow>
           clean_item W (JObj kvs) =
             Inr (Some \<lparr>assumption = py_str W a, probability = clamp01 f, evidence = []\<rparr>)"
    using assms by simp
  have c: "\<exists>f. py_float W p = Inr f
              \<and> \<lparr>assumption = py_str W a, probability = clamp01 f, evidence = []\<rparr>
                  \<in> set (fst (infer_uncertain_assumptions_with_llm W convo model))"
    if h: "parsed_items W (AssumptionsRequest model convo) = Some items"
      "JObj kvs \<in> set (take 10 items)"
      "snd (infer_uncertain_assumptions_with_llm W convo model) =
         [Called (AssumptionsRequest model convo)]" for items
  proof -
    from h(1,3) have ok: "\<not> list_ex (float_raises W) (take 10 items)"
      by (auto simp: infer_assumptions_closed split: if_splits)
    with h(2) have "\<not> float_raises W (JObj kvs)"
      by (auto simp: list_ex_iff)
    with assms obtain f where f: "py_float W p = Inr f"
      by (auto simp: float_raises_def split: sum.splits)
    with assms have "kept W (JObj kvs) =
        [\<lparr>assumption = py_str W a, probability = clamp01 f, evidence = []\<rparr>]"
      by (simp add: kept_def)
    with h(2) have "\<lparr>assumption = py_str W a, probability = clamp01 f, evidence = []\<rparr>
        \<in> set (concat (map (kept W) (take 10 items)))"
      by force
    with h(1) ok f show ?thesis
      by (auto simp: infer_assumptions_closed)
  qed
  from a b c show ?thesis by auto
qed

text \<open>The theorem at the item of the example response that has no evidence.\<close>

theorem entry_without_evidence_kept_witness:
  "map_of [(''assumption'', JStr ''is an expert''), (''probability'', JFloat (Fin (- 0.3)))]
      ''evidence'' = None
   \<and> clean_item clamp_example_world
        (JObj [(''assumption'', JStr ''is an expert''), (''probability'', JFloat (Fin (- 0.3)))])
      = Inr (Some \<lparr>assumption = ''is an expert'', probability = Fin 0, evidence = []\<rparr>)
   \<and> \<lparr>assumption = ''is an expert'', probability = Fin 0, evidence = []\<rparr>
       \<in> set (fst (infer_uncertain_assumptions_with_llm clamp_example_world ''User: hi''
                     ''gpt-5.1-mini''))"
  using entry_without_evidence_kept
    [of "[(''assumption'', JStr ''is an expert''), (''probability'', JFloat (Fin (- 0.3)))]"
        "JStr ''is an expert''" "JFloat (Fin (- 0.3))" clamp_example_world
        "''gpt-5.1-mini''" "''User: hi''"]
  by (simp add: clamp_example_run clamp01_def py_min_def py_max_def)

text \<open>
  The claim as stated fails: of eleven items that are dicts with both keys and without
  \<^verbatim>\<open>evidence\<close>, the eleventh is not kept; the returned list holds the first ten.
\<close>

theorem eleventh_entry_not_kept:
  "parsed_items eleven_items_world (AssumptionsRequest ''gpt-5.1-mini'' ''User: hi'') =
     Some (replicate 10 early_item @ [eleventh_item])
   \<and> eleventh_item = JObj [(''assumption'', JStr ''eleventh''),
                            (''probability'', JFloat (Fin 0.5))]
   \<and> infer_uncertain_assumptions_with_llm eleven_items_world ''User: hi'' ''gpt-5.1-mini'' =
       (replicate 10 \<lparr>assumption = ''early'', probability = Fin 0.5, evidence = []\<rparr>,
        [Called (AssumptionsRequest ''gpt-5.1-mini'' ''User: hi'')])
   \<and> \<lparr>assumption = ''eleventh'', probability = Fin 0.5, evidence = []\<rparr>
       \<notin> set (replicate 10 \<lparr>assumption = ''early'', probability = Fin 0.5, evidence = []\<rparr>)"
  by (simp add: infer_uncertain_assumptions_with_llm_def parsed_items_def
      eleven_items_world_def example_world_def scripted_def eleven_items_json_def
      early_item_def eleventh_item_def clamp01_def py_min_def py_max_def eval_nat_numeral)


section \<open>The lock check and the turn: how they run\<close>

lemma mental_model_step_eq:
  "mental_model_step W I text S =
     (if turn_index S \<noteq> 0 \<and> mm_locked S then (mm_values S, user_locked, S, [])
      else (fst (infer_mental_model_with_llm W text (mm_model_name I)),
            (if turn_index S = 0 then inferred_first_turn else inferred_unlocked),
            S\<lparr>mm_values := fst (infer_mental_model_with_llm W text (mm_model_name I))\<rparr>,
            snd (infer_mental_model_with_llm W text (mm_model_name I))))"
  by (simp add: mental_model_step_def split: prod.splits)

lemma infer_mm_events:
  "mental_model_requests (snd (infer_mental_model_with_llm W text m)) = [MentalModelRequest m text]"
  "response_requests (snd (infer_mental_model_with_llm W text m)) = []"
  by (simp_all add: infer_mental_model_with_llm_def Let_def
      split: reply.splits option.splits sum.splits)

lemma infer_assumptions_events:
  "mental_model_requests (snd (infer_uncertain_assumptions_with_llm W t m)) = []"
  "response_requests (snd (infer_uncertain_assumptions_with_llm W t m)) = []"
  by (simp_all add: infer_uncertain_assumptions_with_llm_def Let_def
      split: reply.splits option.splits sum.splits)

lemma assumptions_step_eq:
  "assumptions_step W I S =
     (fst (infer_uncertain_assumptions_with_llm W (build_history_text (messages S))
             (assumptions_model_name I)),
      S\<lparr>assumptions_latest :=
           Some (fst (infer_uncertain_assumptions_with_llm W (build_history_text (messages S))
                   (assumptions_model_name I))),
        assumptions_history := assumptions_history S @
          [\<lparr>h_turn_index = turn_index S + 1,
            h_timestamp = now_history W @ ''Z'',
            h_assumptions =
              fst (infer_uncertain_assumptions_with_llm W (build_history_text (messages S))
                    (assumptions_model_name I))\<rparr>]\<rparr>,
      snd (infer_uncertain_assumptions_with_llm W (build_history_text (messages S))
             (assumptions_model_name I)))"
  by (simp add: assumptions_step_def split: prod.splits)

lemma mental_model_requests_append:
  "mental_model_requests (xs @ ys) = mental_model_requests xs @ mental_model_requests ys"
  by (induction xs rule: mental_model_requests.induct) simp_all

lemma response_requests_append:
  "response_requests (xs @ ys) = response_requests xs @ response_requests ys"
  by (induction xs rule: response_requests.induct) simp_all

lemma response_step_cases:
  assumes "response_step W I text mm_vals src a S = (out, S', ev)"
  shows "mm_values S' = mm_values S \<and> mm_locked S' = mm_locked S
     \<and> assumptions_latest S' = assumptions_latest S
     \<and> assumptions_history S' = assumptions_history S
     \<and> mental_model_requests ev = []
     \<and> (out \<noteq> Completed \<longrightarrow> S' = S)
     \<and> (out = Completed \<longrightarrow> turn_index S' = turn_index S + 1
           \<and> (\<exists>l. turn_logs S' = turn_logs S @ [l] \<and> log_mental_model l = mm_vals
                  \<and> log_mental_model_source l = src \<and> log_user_message l = text
                  \<and> log_turn_index l = turn_index S + 1 \<and> log_assumptions l = a
                  \<and> log_mm_locked l = mm_locked S))
     \<and> (out = ResponseRaised \<longrightarrow>
           (\<exists>pre. build_mental_model_preamble W mm_vals = Inr pre
              \<and> llm W (ResponseRequest (response_model_name I) pre
                         (build_history_text (messages S))) = Raises
              \<and> ev = [Called (ResponseRequest (response_model_name I) pre
                         (build_history_text (messages S)))]))
     \<and> out \<noteq> NoInput \<and> out \<noteq> MissingKey \<and> (\<forall>e. out \<noteq> LockCheckRaised e)
     \<and> (\<forall>e. out \<noteq> SidebarRaised e)"
  using assms
  by (auto simp: response_step_def log_turn_def Let_def split: sum.splits reply.splits)

lemma turn_submitted:
  assumes "user_input I = Some text" "text \<noteq> []" "api_key I \<noteq> []"
    and "turn W I S = (out, S', ev)"
  shows "\<exists>ev3.
     response_step W I text (turn_mm W I text S)
       (if turn_index S = 0 then inferred_first_turn
        else if mm_locked S then user_locked else inferred_unlocked)
       (turn_assumptions W I text S) (before_response W I text S) = (out, S', ev3)
     \<and> ev = (if turn_index S \<noteq> 0 \<and> mm_locked S then []
             else snd (infer_mental_model_with_llm W text (mm_model_name I)))
            @ snd (infer_uncertain_assumptions_with_llm W
                (build_history_text (messages S @ [\<lparr>role = User, content = text\<rparr>]))
                (assumptions_model_name I))
            @ ev3"
  using assms
  by (auto simp: turn_def mental_model_step_eq assumptions_step_eq turn_mm_def
      turn_assumptions_def before_response_def
      split: prod.splits if_splits)

lemma turn_submitted_events:
  assumes "user_input I = Some text" "text \<noteq> []" "api_key I \<noteq> []"
    and "turn W I S = (out, S', ev)"
  shows "mental_model_requests ev =
         (if turn_index S \<noteq> 0 \<and> mm_locked S then []
          else [MentalModelRequest (mm_model_name I) text])"
proof -
  from turn_submitted[OF assms] obtain ev3 where
    r: "response_step W I text (turn_mm W I text S)
       (if turn_index S = 0 then inferred_first_turn
        else if mm_locked S then user_locked else inferred_unlocked)
       (turn_assumptions W I text S) (before_response W I text S) = (out, S', ev3)"
    and e: "ev = (if turn_index S \<noteq> 0 \<and> mm_locked S then []
             else snd (infer_mental_model_with_llm W text (mm_model_name I)))
            @ snd (infer_uncertain_assumptions_with_llm W
                (build_history_text (messages S @ [\<lparr>role = User, content = text\<rparr>]))
                (assumptions_model_name I))
            @ ev3" by blast
  from response_step_cases[OF r] have "mental_model_requests ev3 = []" by simp
  with e show ?thesis
    by (simp add: mental_model_requests_append infer_mm_events infer_assumptions_events)
qed


section \<open>The turn and the lock check: what they store\<close>

lemma chat_mm:
  "infer_mental_model_with_llm (chat_world answer) ''hello'' ''gpt-5.1-mini'' =
     (inferred_mm, [Called (MentalModelRequest ''gpt-5.1-mini'' ''hello'')])"
  by (simp add: infer_mental_model_with_llm_def chat_world_def example_world_def scripted_def
      DEFAULT_MM_def inferred_mm_def)

lemma chat_mm_any:
  "infer_mental_model_with_llm (chat_world answer) msg ''gpt-5.1-mini'' =
     (inferred_mm, [Called (MentalModelRequest ''gpt-5.1-mini'' msg)])"
  by (simp add: infer_mental_model_with_llm_def chat_world_def example_world_def scripted_def
      DEFAULT_MM_def inferred_mm_def)

lemma chat_assumptions:
  "infer_uncertain_assumptions_with_llm (chat_world answer) convo ''gpt-5.1-mini'' =
     (example_assumptions, [Called (AssumptionsRequest ''gpt-5.1-mini'' convo)])"
  by (simp add: infer_uncertain_assumptions_with_llm_def chat_world_def example_world_def
      scripted_def clamp_example_json_def clamp_example_text_def example_assumptions_def
      clamp01_def py_min_def py_max_def)

lemma chat_preamble:
  "build_mental_model_preamble (chat_world answer) inferred_mm =
     Inr [''0.50'', ''0.80'', ''True'', ''0.50'', ''0.50'', ''0.50'', ''0.90'', ''0.70'',
          ''Neutral assistant'']"
  by (simp add: build_mental_model_preamble_def preamble_fields_def inferred_mm_def
      chat_world_def example_world_def)

lemma chat_answer: "llm (chat_world answer) (ResponseRequest m p t) = answer"
  by (simp add: chat_world_def example_world_def scripted_def)

lemma chat_clock:
  "now_history (chat_world answer) = ''2025-01-01T00:00:00''"
  "now_log (chat_world answer) = ''2025-01-01T00:00:01''"
  by (simp_all add: chat_world_def example_world_def)

lemma first_turn_run:
  "turn (chat_world (OutputText ''Happy to help.'')) (example_inputs (Some ''hello'') ''sk-test'')
     initial_session =
   (Completed, after_first_turn,
    [Called (MentalModelRequest ''gpt-5.1-mini'' ''hello''),
     Called (AssumptionsRequest ''gpt-5.1-mini'' ''User: hello''),
     Called (ResponseRequest ''gpt-5.1''
       [''0.50'', ''0.80'', ''True'', ''0.50'', ''0.50'', ''0.50'', ''0.90'', ''0.70'',
        ''Neutral assistant''] ''User: hello'')])"
  by (simp add: turn_def example_inputs_def initial_session_def mental_model_step_def
      assumptions_step_def response_step_def log_turn_def chat_mm chat_assumptions
      chat_preamble chat_answer chat_clock build_history_text_def after_first_turn_def Let_def)

lemma example_inputs_fields:
  "user_input (example_inputs m k) = m" "api_key (example_inputs m k) = k"
  "mm_model_name (example_inputs m k) = ''gpt-5.1-mini''"
  "assumptions_model_name (example_inputs m k) = ''gpt-5.1-mini''"
  "response_model_name (example_inputs m k) = ''gpt-5.1''"
  by (simp_all add: example_inputs_def)

lemma after_first_turn_fields:
  "mm_values after_first_turn = inferred_mm"
  "turn_index after_first_turn = 1"
  "mm_locked after_first_turn = False"
  "log_mental_model_source (last (turn_logs after_first_turn)) = inferred_first_turn"
  "length (turn_logs after_first_turn) = 1"
  by (simp_all add: after_first_turn_def)

lemma initial_session_fields:
  "turn_index initial_session = 0" "mm_locked initial_session = False"
  "mm_values initial_session = DEFAULT_MM" "turn_logs initial_session = []"
  "messages initial_session = []"
  by (simp_all add: initial_session_def)

lemma turn_keeps:
  assumes "turn W I S = (out, S', ev)"
  shows "mm_locked S' = mm_locked S \<and> turn_index S \<le> turn_index S'
     \<and> (turn_index S \<noteq> 0 \<and> mm_locked S \<longrightarrow>
          mm_values S' = mm_values S \<and> mental_model_requests ev = []
          \<and> (out = Completed \<longrightarrow>
               log_mental_model (last (turn_logs S')) = mm_values S
               \<and> log_mental_model_source (last (turn_logs S')) = user_locked))"
proof (cases "\<exists>msg. user_input I = Some msg \<and> msg \<noteq> [] \<and> api_key I \<noteq> []")
  case False
  with assms show ?thesis
    by (auto simp: turn_def split: option.splits if_splits)
next
  case True
  then obtain msg where t: "user_input I = Some msg" "msg \<noteq> []" "api_key I \<noteq> []"
    by blast
  from turn_submitted[OF t assms] obtain ev3 where
    r: "response_step W I msg (turn_mm W I msg S)
       (if turn_index S = 0 then inferred_first_turn
        else if mm_locked S then user_locked else inferred_unlocked)
       (turn_assumptions W I msg S) (before_response W I msg S) = (out, S', ev3)"
    by blast
  note c = response_step_cases[OF r]
  note e = turn_submitted_events[OF t assms]
  have idx: "turn_index S \<le> turn_index S'"
  proof (cases "out = Completed")
    case True
    with c show ?thesis by (simp add: before_response_def)
  next
    case False
    with c have "S' = before_response W I msg S" by simp
    then show ?thesis by (simp add: before_response_def)
  qed
  have lk: "mm_locked S' = mm_locked S"
    using c by (simp add: before_response_def)
  have mv: "mm_values S' = turn_mm W I msg S"
    using c by (simp add: before_response_def)
  have lg: "log_mental_model (last (turn_logs S')) = turn_mm W I msg S
      \<and> log_mental_model_source (last (turn_logs S')) =
          (if turn_index S = 0 then inferred_first_turn
           else if mm_locked S then user_locked else inferred_unlocked)"
    if "out = Completed"
    using c that by auto
  show ?thesis
    using idx lk mv e lg by (auto simp: turn_mm_def)
qed

lemma null_infer:
  "infer_mental_model_with_llm null_world ''hello'' ''gpt-5.1-mini'' =
     (null_mm, [Called (MentalModelRequest ''gpt-5.1-mini'' ''hello'')])"
  by (simp add: infer_mental_model_with_llm_def null_world_def example_world_def scripted_def
      DEFAULT_MM_def null_mm_def)

lemma null_assumptions:
  "infer_uncertain_assumptions_with_llm null_world convo ''gpt-5.1-mini'' =
     (example_assumptions, [Called (AssumptionsRequest ''gpt-5.1-mini'' convo)])"
  by (simp add: infer_uncertain_assumptions_with_llm_def null_world_def example_world_def
      scripted_def clamp_example_json_def clamp_example_text_def null_mm_text_def
      example_assumptions_def clamp01_def py_min_def py_max_def)

lemma null_preamble:
  "build_mental_model_preamble null_world null_mm =
     Inr [''0.50'', ''0.80'', ''None'', ''0.50'', ''0.50'', ''0.50'', ''0.50'', ''0.70'',
          ''Neutral assistant'']"
  by (simp add: build_mental_model_preamble_def preamble_fields_def null_mm_def
      null_world_def example_world_def)

lemma null_answer: "llm null_world (ResponseRequest m p t) = OutputText ''Happy to help.''"
  by (simp add: null_world_def example_world_def scripted_def)

lemma null_clock:
  "now_history null_world = ''2025-01-01T00:00:00''"
  "now_log null_world = ''2025-01-01T00:00:01''"
  by (simp_all add: null_world_def example_world_def)

lemma null_turn_run:
  "turn null_world (example_inputs (Some ''hello'') ''sk-test'') initial_session =
   (Completed, after_null_turn,
    [Called (MentalModelRequest ''gpt-5.1-mini'' ''hello''),
     Called (AssumptionsRequest ''gpt-5.1-mini'' ''User: hello''),
     Called (ResponseRequest ''gpt-5.1''
       [''0.50'', ''0.80'', ''None'', ''0.50'', ''0.50'', ''0.50'', ''0.50'', ''0.70'',
        ''Neutral assistant''] ''User: hello'')])"
  by (simp add: turn_def example_inputs_def initial_session_def mental_model_step_def
      assumptions_step_def response_step_def log_turn_def null_infer null_assumptions
      null_preamble null_answer null_clock build_history_text_def after_null_turn_def Let_def)

lemma default_widgets:
  "widget_values null_world DEFAULT_MM =
     Inr (untouched_controls\<lparr>expects_correction := True\<rparr>)"
  by (simp add: widget_values_def and_then_def slider_value_def checkbox_value_def
      selectbox_value_def DEFAULT_MM_def roles_def untouched_controls_def)

lemma null_widgets: "widget_values null_world null_mm = Inr untouched_controls"
  by (simp add: widget_values_def and_then_def slider_value_def checkbox_value_def
      selectbox_value_def null_mm_def roles_def untouched_controls_def)

lemma null_changed:
  "any_changed null_world null_mm (current_from_controls untouched_controls) = Inr True"
  by (simp add: current_from_controls_def untouched_controls_def null_mm_def
      control_changed_def tolerance_def null_world_def example_world_def)

lemma after_null_turn_fields:
  "mm_values after_null_turn = null_mm" "turn_index after_null_turn = 1"
  "mm_locked after_null_turn = False"
  by (simp_all add: after_null_turn_def)

lemma null_lock_check: "lock_check null_world untouched_controls after_null_turn = Inr null_locked"
  by (simp add: lock_check_def null_changed null_locked_def after_null_turn_fields)

lemma null_states:
  "states null_cycles initial_session = [initial_session, after_null_turn, null_locked]"
proof -
  have r1: "render null_world None (example_inputs (Some ''hello'') ''sk-test'') initial_session
      = (Completed, after_null_turn,
    [Called (MentalModelRequest ''gpt-5.1-mini'' ''hello''),
     Called (AssumptionsRequest ''gpt-5.1-mini'' ''User: hello''),
     Called (ResponseRequest ''gpt-5.1''
       [''0.50'', ''0.80'', ''None'', ''0.50'', ''0.50'', ''0.50'', ''0.50'', ''0.70'',
        ''Neutral assistant''] ''User: hello'')])"
    by (simp add: render_def lock_check_def initial_session_fields default_widgets
        null_turn_run)
  have r2: "render null_world None (example_inputs None ''sk-test'') after_null_turn
      = (NoInput, null_locked, [])"
    by (simp add: render_def after_null_turn_fields null_widgets null_lock_check turn_def
        example_inputs_fields)
  show ?thesis
    by (simp add: null_cycles_def r1 r2)
qed


lemma lock_check_skipped:
  "turn_index S = 0 \<or> mm_locked S \<Longrightarrow> lock_check W c S = Inr S"
  by (auto simp: lock_check_def)

lemma lock_check_keeps:
  assumes "lock_check W c S = Inr S'"
  shows "turn_index S' = turn_index S \<and> (mm_locked S \<longrightarrow> S' = S)
     \<and> (mm_locked S' \<longleftrightarrow> mm_locked S
           \<or> (turn_index S \<noteq> 0
               \<and> any_changed W (mm_values S) (current_from_controls c) = Inr True))"
  using assms
  by (auto simp: lock_check_def split: if_splits sum.splits)

lemma render_keeps:
  assumes "render W touched I S = (out, S', ev)"
  shows "turn_index S \<le> turn_index S' \<and> (mm_locked S \<longrightarrow> mm_locked S')
     \<and> (turn_index S \<noteq> 0 \<and> mm_locked S \<longrightarrow>
          mm_values S' = mm_values S \<and> mental_model_requests ev = [])"
proof (cases "widget_values W (mm_values S)")
  case (Inl e)
  with assms show ?thesis by (simp add: render_def)
next
  case (Inr shown)
  let ?c = "if turn_index S = 0 then shown
            else (case touched of None \<Rightarrow> shown | Some c \<Rightarrow> c)"
  show ?thesis
  proof (cases "lock_check W ?c S")
    case (Inl e)
    with assms Inr show ?thesis by (simp add: render_def)
  next
    case r: (Inr S1)
    with assms Inr have t: "turn W I S1 = (out, S', ev)" by (simp add: render_def)
    from turn_keeps[OF t] lock_check_keeps[OF r] show ?thesis by auto
  qed
qed

lemma run_locked:
  "turn_index S \<noteq> 0 \<Longrightarrow> mm_locked S \<Longrightarrow>
     mm_locked (run cycles S) \<and> mm_values (run cycles S) = mm_values S
     \<and> turn_index (run cycles S) \<noteq> 0"
proof (induction cycles arbitrary: S)
  case Nil
  then show ?case by simp
next
  case (Cons cy cycles)
  obtain W c I where cy: "cy = (W, c, I)" by (cases cy) auto
  obtain out S' ev where r: "render W c I S = (out, S', ev)" by (cases "render W c I S") auto
  from render_keeps[OF r] Cons.prems
  have s: "turn_index S' \<noteq> 0" "mm_locked S'" "mm_values S' = mm_values S" by auto
  from Cons.IH[OF s(1,2)] s(3) show ?case by (simp add: cy r)
qed

lemma states_flags:
  "\<exists>n \<le> length cycles.
     map mm_locked (states cycles S) =
       (if mm_locked S then replicate (Suc (length cycles)) True
        else replicate (Suc n) False @ replicate (length cycles - n) True)"
proof (induction cycles arbitrary: S)
  case Nil
  then show ?case by simp
next
  case (Cons cy cycles)
  obtain W c I where cy: "cy = (W, c, I)" by (cases cy) auto
  obtain out S' ev where r: "render W c I S = (out, S', ev)" by (cases "render W c I S") auto
  from Cons.IH[of S'] obtain n where
    n: "n \<le> length cycles"
       "map mm_locked (states cycles S') =
         (if mm_locked S' then replicate (Suc (length cycles)) True
          else replicate (Suc n) False @ replicate (length cycles - n) True)"
    by blast
  show ?case
  proof (cases "mm_locked S")
    case True
    with render_keeps[OF r] have "mm_locked S'" by simp
    with n True show ?thesis by (auto simp: cy r)
  next
    case False
    show ?thesis
    proof (cases "mm_locked S'")
      case True
      with n False have "map mm_locked (states (cy # cycles) S) =
          replicate (Suc 0) False @ replicate (length (cy # cycles) - 0) True"
        by (simp add: cy r)
      with False show ?thesis by (intro exI[of _ 0]) simp
    next
      case f: False
      with n False have "map mm_locked (states (cy # cycles) S) =
          replicate (Suc (Suc n)) False @ replicate (length (cy # cycles) - Suc n) True"
        by (simp add: cy r)
      with False n(1) show ?thesis by (intro exI[of _ "Suc n"]) simp
    qed
  qed
qed

text \<open>
  The lock flag of a new session is false. Along any sequence of runs of the script the
  flag is false up to some run and true from then on; no run and no turn resets it, and
  the lock check does nothing before the first completed turn and once the flag is set.
\<close>

lemma lock_flag_never_reset:
  "\<not> mm_locked initial_session
   \<and> (\<exists>n \<le> length cycles.
         map mm_locked (states cycles initial_session) =
           replicate (Suc n) False @ replicate (length cycles - n) True)
   \<and> (\<forall>W touched I S. mm_locked S \<longrightarrow> mm_locked (fst (snd (render W touched I S))))
   \<and> (\<forall>W c S. turn_index S = 0 \<or> mm_locked S \<longrightarrow> lock_check W c S = Inr S)
   \<and> (\<forall>W I S. mm_locked (fst (snd (turn W I S))) = mm_locked S)"
proof -
  have a: "\<not> mm_locked initial_session" by (simp add: initial_session_def)
  from states_flags[of cycles initial_session] a
  have b: "\<exists>n \<le> length cycles.
         map mm_locked (states cycles initial_session) =
           replicate (Suc n) False @ replicate (length cycles - n) True"
    by simp
  have c: "mm_locked S \<longrightarrow> mm_locked (fst (snd (render W touched I S)))" for W touched I S
  proof -
    obtain out S' ev where r: "render W touched I S = (out, S', ev)"
      by (cases "render W touched I S") auto
    from render_keeps[OF r] show ?thesis by (simp add: r)
  qed
  have d: "turn_index S = 0 \<or> mm_locked S \<longrightarrow> lock_check W c S = Inr S" for W c S
    using lock_check_skipped by blast
  have f: "mm_locked (fst (snd (turn W I S))) = mm_locked S" for W I S
  proof -
    obtain out S' ev where r: "turn W I S = (out, S', ev)"
      by (cases "turn W I S") auto
    from turn_keeps[OF r] show ?thesis by (simp add: r)
  qed
  from a b c d f show ?thesis by blast
qed


text \<open>
  Claim C3. The claim: the flag starts false and is set at most once, on the first
  control change by the user after the first completed turn, and is never reset. The flag
  is never reset (the lemma above). It is set, though, by the rerun that follows the
  first reply, with no control touched in either run, when the mental-model call answered
  \<^verbatim>\<open>{"expects_correction": null}\<close>.
\<close>

theorem lock_flag_set_by_rerun:
  "null_cycles =
     [(null_world, None, example_inputs (Some ''hello'') ''sk-test''),
      (null_world, None, example_inputs None ''sk-test'')]
   \<and> states null_cycles initial_session = [initial_session, after_null_turn, null_locked]
   \<and> map mm_locked (states null_cycles initial_session) = [False, False, True]"
  by (simp add: null_states null_cycles_def[symmetric] initial_session_fields
      after_null_turn_fields null_locked_def)

text \<open>
  Claim C4, as amended. For every submitted user message with a non-empty API key: on
  the first turn the mental model is inferred from that message and stored; on a later
  turn with the model locked the stored values are kept as they are and no request for
  a mental model is made; on a later turn with the model unlocked it is inferred again,
  by one request that carries that message alone. When the turn completes, the new log
  entry holds the turn's mental model and the tag \<^verbatim>\<open>inferred_first_turn\<close>,
  \<^verbatim>\<open>user_locked\<close> or \<^verbatim>\<open>inferred_unlocked\<close>; a turn that does not complete
  records no tag.
\<close>

theorem mental_model_dispatch:
  assumes "user_input I = Some text" and "text \<noteq> []" and "api_key I \<noteq> []"
    and "turn W I S = (out, S', ev)"
  shows "(turn_index S = 0 \<longrightarrow>
            mm_values S' = fst (infer_mental_model_with_llm W text (mm_model_name I))
            \<and> mental_model_requests ev = [MentalModelRequest (mm_model_name I) text]
            \<and> (out = Completed \<longrightarrow>
                 log_mental_model_source (last (turn_logs S')) = inferred_first_turn))
     \<and> (turn_index S \<noteq> 0 \<and> mm_locked S \<longrightarrow>
            mm_values S' = mm_values S
            \<and> mental_model_requests ev = []
            \<and> (out = Completed \<longrightarrow>
                 log_mental_model_source (last (turn_logs S')) = user_locked))
     \<and> (turn_index S \<noteq> 0 \<and> \<not> mm_locked S \<longrightarrow>
            mm_values S' = fst (infer_mental_model_with_llm W text (mm_model_name I))
            \<and> mental_model_requests ev = [MentalModelRequest (mm_model_name I) text]
            \<and> (out = Completed \<longrightarrow>
                 log_mental_model_source (last (turn_logs S')) = inferred_unlocked))
     \<and> (out = Completed \<longrightarrow>
            length (turn_logs S') = Suc (length (turn_logs S))
            \<and> log_mental_model (last (turn_logs S')) = mm_values S'
            \<and> log_user_message (last (turn_logs S')) = text)
     \<and> (out \<noteq> Completed \<longrightarrow> turn_logs S' = turn_logs S)"
proof -
  from turn_submitted[OF assms] obtain ev3 where
    r: "response_step W I text (turn_mm W I text S)
       (if turn_index S = 0 then inferred_first_turn
        else if mm_locked S then user_locked else inferred_unlocked)
       (turn_assumptions W I text S) (before_response W I text S) = (out, S', ev3)"
    by blast
  note c = response_step_cases[OF r]
  from c have mm: "mm_values S' = turn_mm W I text S"
    by (simp add: before_response_def)
  have ev: "mental_model_requests ev =
         (if turn_index S \<noteq> 0 \<and> mm_locked S then []
          else [MentalModelRequest (mm_model_name I) text])"
    by (rule turn_submitted_events[OF assms])
  have lg: "length (turn_logs S') = Suc (length (turn_logs S))
      \<and> log_mental_model (last (turn_logs S')) = mm_values S'
      \<and> log_user_message (last (turn_logs S')) = text
      \<and> log_mental_model_source (last (turn_logs S')) =
          (if turn_index S = 0 then inferred_first_turn
           else if mm_locked S then user_locked else inferred_unlocked)"
    if "out = Completed"
  proof -
    from c that obtain l where
      l: "turn_logs S' = turn_logs (before_response W I text S) @ [l]"
         "log_mental_model l = turn_mm W I text S"
         "log_mental_model_source l = (if turn_index S = 0 then inferred_first_turn
            else if mm_locked S then user_locked else inferred_unlocked)"
         "log_user_message l = text"
      by blast
    with mm show ?thesis by (simp add: before_response_def)
  qed
  have nl: "out \<noteq> Completed \<longrightarrow> turn_logs S' = turn_logs S"
    using c by (auto simp: before_response_def)
  show ?thesis
    using mm ev lg nl by (auto simp: turn_mm_def)
qed

text \<open>The theorem at the first turn of the conversation.\<close>

theorem mental_model_dispatch_witness:
  "user_input (example_inputs (Some ''hello'') ''sk-test'') = Some ''hello''
   \<and> api_key (example_inputs (Some ''hello'') ''sk-test'') = ''sk-test''
   \<and> turn_index initial_session = 0
   \<and> fst (turn (chat_world (OutputText ''Happy to help.''))
            (example_inputs (Some ''hello'') ''sk-test'') initial_session) = Completed
   \<and> mm_values after_first_turn = inferred_mm
   \<and> log_mental_model_source (last (turn_logs after_first_turn)) = inferred_first_turn
   \<and> mental_model_requests
        [Called (MentalModelRequest ''gpt-5.1-mini'' ''hello''),
         Called (AssumptionsRequest ''gpt-5.1-mini'' ''User: hello''),
         Called (ResponseRequest ''gpt-5.1''
           [''0.50'', ''0.80'', ''True'', ''0.50'', ''0.50'', ''0.50'', ''0.90'', ''0.70'',
            ''Neutral assistant''] ''User: hello'')]
      = [MentalModelRequest ''gpt-5.1-mini'' ''hello'']"
proof -
  have "log_mental_model_source (last (turn_logs after_first_turn)) = inferred_first_turn"
    using mental_model_dispatch
      [of "example_inputs (Some ''hello'') ''sk-test''" "''hello''"
          "chat_world (OutputText ''Happy to help.'')" initial_session, OF _ _ _ first_turn_run]
    by (simp add: example_inputs_fields initial_session_fields)
  then show ?thesis
    by (simp add: example_inputs_fields first_turn_run after_first_turn_fields
        initial_session_fields)
qed

text \<open>
  The claim as stated fails: a message submitted on the first turn with an empty
  API key infers nothing; no request is made, the defaults stay, and no tag is recorded.
\<close>

theorem missing_key_infers_nothing:
  "user_input (example_inputs (Some ''hello'') []) = Some ''hello''
   \<and> turn_index initial_session = 0
   \<and> turn (chat_world (OutputText ''Happy to help.'')) (example_inputs (Some ''hello'') [])
        initial_session = (MissingKey, initial_session, [StError])
   \<and> mental_model_requests [StError] = []
   \<and> mm_values initial_session = DEFAULT_MM
   \<and> turn_logs initial_session = []"
  by (simp add: turn_def example_inputs_fields initial_session_fields)

text \<open>
  Claim C8. A submitted user message with an empty API key ends the turn with
  \<^verbatim>\<open>st.error\<close> and nothing else: the session is returned as it was, in every
  field, and no call to the service is among the events.
\<close>

theorem missing_key_aborts_turn:
  assumes "user_input I = Some text" and "text \<noteq> []" and "api_key I = []"
  shows "turn W I S = (MissingKey, S, [StError]) \<and> calls [StError] = []"
  using assms by (simp add: turn_def)

text \<open>The theorem after the first turn of the conversation, with the key field empty.\<close>

theorem missing_key_aborts_turn_witness:
  "user_input (example_inputs (Some ''hello'') []) = Some ''hello''
   \<and> api_key (example_inputs (Some ''hello'') []) = []
   \<and> turn (chat_world (OutputText ''Happy to help.'')) (example_inputs (Some ''hello'') [])
        after_first_turn = (MissingKey, after_first_turn, [StError])"
  using missing_key_aborts_turn
    [of "example_inputs (Some ''hello'') []" "''hello''"
        "chat_world (OutputText ''Happy to help.'')" after_first_turn]
  by (simp add: example_inputs_fields)

text \<open>
  A turn ends with the outcome \<open>ResponseRaised\<close> only when it reached the call of
  the response model and that call raised.
\<close>

lemma response_raised_by_raising_call:
  assumes "turn W I S = (ResponseRaised, S', ev)"
  shows "\<exists>text pre.
       user_input I = Some text
     \<and> messages S' = messages S @ [\<lparr>role = User, content = text\<rparr>]
     \<and> mm_values S' =
         (if turn_index S = 0 \<or> \<not> mm_locked S
          then fst (infer_mental_model_with_llm W text (mm_model_name I))
          else mm_values S)
     \<and> assumptions_latest S' =
         Some (fst (infer_uncertain_assumptions_with_llm W (build_history_text (messages S'))
                      (assumptions_model_name I)))
     \<and> assumptions_history S' = assumptions_history S @
         [\<lparr>h_turn_index = turn_index S + 1,
           h_timestamp = now_history W @ ''Z'',
           h_assumptions =
             fst (infer_uncertain_assumptions_with_llm W (build_history_text (messages S'))
                    (assumptions_model_name I))\<rparr>]
     \<and> turn_logs S' = turn_logs S
     \<and> turn_index S' = turn_index S
     \<and> mm_locked S' = mm_locked S
     \<and> build_mental_model_preamble W (mm_values S') = Inr pre
     \<and> llm W (ResponseRequest (response_model_name I) pre (build_history_text (messages S')))
         = Raises
     \<and> response_requests ev =
         [ResponseRequest (response_model_name I) pre (build_history_text (messages S'))]
     \<and> last ev =
         Called (ResponseRequest (response_model_name I) pre (build_history_text (messages S')))"
proof -
  from assms obtain msg where
    t: "user_input I = Some msg" "msg \<noteq> []" "api_key I \<noteq> []"
    by (auto simp: turn_def split: option.splits if_splits)
  from turn_submitted[OF t assms] obtain ev3 where
    r: "response_step W I msg (turn_mm W I msg S)
       (if turn_index S = 0 then inferred_first_turn
        else if mm_locked S then user_locked else inferred_unlocked)
       (turn_assumptions W I msg S) (before_response W I msg S) = (ResponseRaised, S', ev3)"
    and e: "ev = (if turn_index S \<noteq> 0 \<and> mm_locked S then []
             else snd (infer_mental_model_with_llm W msg (mm_model_name I)))
            @ snd (infer_uncertain_assumptions_with_llm W
                (build_history_text (messages S @ [\<lparr>role = User, content = msg\<rparr>]))
                (assumptions_model_name I))
            @ ev3"
    by blast
  from response_step_cases[OF r] obtain pre where
    s: "S' = before_response W I msg S"
    and p: "build_mental_model_preamble W (turn_mm W I msg S) = Inr pre"
       "llm W (ResponseRequest (response_model_name I) pre
          (build_history_text (messages (before_response W I msg S)))) = Raises"
       "ev3 = [Called (ResponseRequest (response_model_name I) pre
          (build_history_text (messages (before_response W I msg S))))]"
    by auto
  have m: "messages S' = messages S @ [\<lparr>role = User, content = msg\<rparr>]"
    and v: "mm_values S' = turn_mm W I msg S"
    by (simp_all add: s before_response_def)
  from e p(3) have rr: "response_requests ev =
      [ResponseRequest (response_model_name I) pre (build_history_text (messages S'))]"
    and la: "last ev =
      Called (ResponseRequest (response_model_name I) pre (build_history_text (messages S')))"
    by (simp_all add: response_requests_append infer_mm_events infer_assumptions_events s)
  show ?thesis
    apply (rule exI[of _ msg], rule exI[of _ pre])
    using t(1) m v p(1,2) rr la
    by (auto simp: s before_response_def turn_mm_def turn_assumptions_def)
qed

text \<open>
  Claim C9. When the call of the response model raises, in a turn with a submitted
  message and a key that has built its prompt, the turn ends there and the session keeps
  what the turn had stored: the user message at the end of the transcript, the mental
  model of the turn (the inferred one when inference ran, the stored one when locked),
  the latest assumptions and their new entry in the history. No log entry is added, the
  turn counter and the lock flag are as before, and the raising call is the last event
  and the only request to the response model: nothing is tried again.
\<close>

theorem response_failure_keeps_stored_results:
  fixes W :: world and I :: inputs and S :: session and msg :: string
  defines "transcript \<equiv> messages S @ [\<lparr>role = User, content = msg\<rparr>]"
    and "mm \<equiv> (if turn_index S \<noteq> 0 \<and> mm_locked S then mm_values S
                else fst (infer_mental_model_with_llm W msg (mm_model_name I)))"
    and "assumed \<equiv> infer_uncertain_assumptions_with_llm W
                      (build_history_text (messages S @ [\<lparr>role = User, content = msg\<rparr>]))
                      (assumptions_model_name I)"
  assumes "user_input I = Some msg" and "msg \<noteq> []" and "api_key I \<noteq> []"
    and "build_mental_model_preamble W mm = Inr pre"
    and "llm W (ResponseRequest (response_model_name I) pre (build_history_text transcript))
           = Raises"
  shows "turn W I S =
     (ResponseRaised,
      S\<lparr>messages := transcript,
        mm_values := mm,
        assumptions_latest := Some (fst assumed),
        assumptions_history := assumptions_history S @
          [\<lparr>h_turn_index = turn_index S + 1,
            h_timestamp = now_history W @ ''Z'',
            h_assumptions = fst assumed\<rparr>]\<rparr>,
      (if turn_index S \<noteq> 0 \<and> mm_locked S then []
       else snd (infer_mental_model_with_llm W msg (mm_model_name I)))
      @ snd assumed
      @ [Called (ResponseRequest (response_model_name I) pre (build_history_text transcript))])
   \<and> turn_logs (fst (snd (turn W I S))) = turn_logs S
   \<and> turn_index (fst (snd (turn W I S))) = turn_index S
   \<and> mm_locked (fst (snd (turn W I S))) = mm_locked S
   \<and> response_requests (snd (snd (turn W I S))) =
       [ResponseRequest (response_model_name I) pre (build_history_text transcript)]"
proof -
  have t: "turn W I S =
     (ResponseRaised,
      S\<lparr>messages := transcript,
        mm_values := mm,
        assumptions_latest := Some (fst assumed),
        assumptions_history := assumptions_history S @
          [\<lparr>h_turn_index = turn_index S + 1,
            h_timestamp = now_history W @ ''Z'',
            h_assumptions = fst assumed\<rparr>]\<rparr>,
      (if turn_index S \<noteq> 0 \<and> mm_locked S then []
       else snd (infer_mental_model_with_llm W msg (mm_model_name I)))
      @ snd assumed
      @ [Called (ResponseRequest (response_model_name I) pre (build_history_text transcript))])"
    using assms(4-8)
    by (auto simp: turn_def mental_model_step_eq assumptions_step_eq response_step_def
        transcript_def mm_def assumed_def Let_def)
  show ?thesis
    unfolding t
    by (simp add: response_requests_append infer_mm_events infer_assumptions_events
        assumed_def)
qed

text \<open>
  The theorem at the second turn of the conversation, when the response call raises.
\<close>

theorem response_failure_keeps_stored_results_witness:
  "user_input (example_inputs (Some ''more'') ''sk-test'') = Some ''more''
   \<and> api_key (example_inputs (Some ''more'') ''sk-test'') = ''sk-test''
   \<and> llm (chat_world Raises)
        (ResponseRequest ''gpt-5.1''
           [''0.50'', ''0.80'', ''True'', ''0.50'', ''0.50'', ''0.50'', ''0.90'', ''0.70'',
            ''Neutral assistant'']
           (build_history_text (messages after_first_turn @ [\<lparr>role = User, content = ''more''\<rparr>])))
       = Raises
   \<and> fst (turn (chat_world Raises) (example_inputs (Some ''more'') ''sk-test'') after_first_turn)
       = ResponseRaised
   \<and> fst (snd (turn (chat_world Raises) (example_inputs (Some ''more'') ''sk-test'')
                  after_first_turn))
       = after_first_turn
           \<lparr>messages := messages after_first_turn @ [\<lparr>role = User, content = ''more''\<rparr>],
            mm_values := inferred_mm,
            assumptions_latest := Some example_assumptions,
            assumptions_history := assumptions_history after_first_turn @
              [\<lparr>h_turn_index = 2, h_timestamp = ''2025-01-01T00:00:00Z'',
                h_assumptions = example_assumptions\<rparr>]\<rparr>
   \<and> turn_logs (fst (snd (turn (chat_world Raises) (example_inputs (Some ''more'') ''sk-test'')
                  after_first_turn))) = turn_logs after_first_turn
   \<and> turn_index (fst (snd (turn (chat_world Raises) (example_inputs (Some ''more'') ''sk-test'')
                  after_first_turn))) = 1"
proof -
  have p: "build_mental_model_preamble (chat_world Raises)
      (if turn_index after_first_turn \<noteq> 0 \<and> mm_locked after_first_turn
       then mm_values after_first_turn
       else fst (infer_mental_model_with_llm (chat_world Raises) ''more''
              (mm_model_name (example_inputs (Some ''more'') ''sk-test''))))
      = Inr [''0.50'', ''0.80'', ''True'', ''0.50'', ''0.50'', ''0.50'', ''0.90'', ''0.70'',
            ''Neutral assistant'']"
    by (simp add: after_first_turn_fields example_inputs_fields chat_mm_any chat_preamble)
  from response_failure_keeps_stored_results
    [of "example_inputs (Some ''more'') ''sk-test''" "''more''" "chat_world Raises"
        after_first_turn, OF _ _ _ p]
  have t: "turn (chat_world Raises) (example_inputs (Some ''more'') ''sk-test'') after_first_turn =
     (ResponseRaised,
      after_first_turn
           \<lparr>messages := messages after_first_turn @ [\<lparr>role = User, content = ''more''\<rparr>],
            mm_values := inferred_mm,
            assumptions_latest := Some example_assumptions,
            assumptions_history := assumptions_history after_first_turn @
              [\<lparr>h_turn_index = 2, h_timestamp = ''2025-01-01T00:00:00Z'',
                h_assumptions = example_assumptions\<rparr>]\<rparr>,
      [Called (MentalModelRequest ''gpt-5.1-mini'' ''more''),
       Called (AssumptionsRequest ''gpt-5.1-mini''
         (build_history_text (messages after_first_turn @ [\<lparr>role = User, content = ''more''\<rparr>]))),
       Called (ResponseRequest ''gpt-5.1''
           [''0.50'', ''0.80'', ''True'', ''0.50'', ''0.50'', ''0.50'', ''0.90'', ''0.70'',
            ''Neutral assistant'']
           (build_history_text (messages after_first_turn @ [\<lparr>role = User, content = ''more''\<rparr>])))])"
    by (simp add: example_inputs_fields chat_answer after_first_turn_fields chat_mm_any
        chat_assumptions chat_clock)
  show ?thesis
    unfolding t
    by (simp add: example_inputs_fields chat_answer after_first_turn_fields)
qed

end
